theory Spec2Isabelle
  imports Main
begin

section \<open>reskit.core: the Pipeliner\<close>

text \<open>
  A shallow embedding of \<^verbatim>\<open>src/reskit/core.py\<close>. Variant names, step names, metric names
  and dictionary keys are Python strings (\<open>string\<close>). An \<^verbatim>\<open>OrderedDict\<close> is an association
  list with distinct keys in insertion order. The scikit-learn objects (transformers,
  estimators, cross-validation passes, scorers) are not part of the repository: they are
  type parameters and function parameters of the model. Every exception the source can
  raise is a value of \<open>error\<close>; a method that mutates the Pipeliner returns the new
  Pipeliner next to its outcome, so that the state left behind by a raise is visible.
\<close>

subsection \<open>Python values\<close>

datatype error =
    NameError string
  | KeyError string
  | IndexError
  | TypeError
  | LibraryError string

type_synonym ('k, 'v) ordered_dict = "('k \<times> 'v) list"

text \<open>\<^verbatim>\<open>d[k] = v\<close> on an OrderedDict: an existing key keeps its position, a new key goes last.\<close>

fun od_setitem :: "('k, 'v) ordered_dict \<Rightarrow> 'k \<Rightarrow> 'v \<Rightarrow> ('k, 'v) ordered_dict" where
  "od_setitem [] k v = [(k, v)]"
| "od_setitem ((k', v') # d) k v =
     (if k' = k then (k, v) # d else (k', v') # od_setitem d k v)"

text \<open>\<^verbatim>\<open>OrderedDict(items)\<close>: the items are inserted from left to right.\<close>

definition OrderedDict :: "('k \<times> 'v) list \<Rightarrow> ('k, 'v) ordered_dict" where
  "OrderedDict items = foldl (\<lambda>d (k, v). od_setitem d k v) [] items"

text \<open>\<^verbatim>\<open>list(d)\<close>: the keys in order.\<close>

definition od_keys :: "('k, 'v) ordered_dict \<Rightarrow> 'k list" where
  "od_keys d = map fst d"

text \<open>\<^verbatim>\<open>del d[k]\<close>; the caller checks that the key is there.\<close>

definition od_delitem :: "('k, 'v) ordered_dict \<Rightarrow> 'k \<Rightarrow> ('k, 'v) ordered_dict" where
  "od_delitem d k = filter (\<lambda>kv. fst kv \<noteq> k) d"

text \<open>\<^verbatim>\<open>d[k]\<close>, raising KeyError on a missing key.\<close>

definition od_getitem :: "(string, 'v) ordered_dict \<Rightarrow> string \<Rightarrow> error + 'v" where
  "od_getitem d k = (case map_of d k of None \<Rightarrow> Inl (KeyError k) | Some v \<Rightarrow> Inr v)"

text \<open>
  \<^verbatim>\<open>itertools.product\<close> of the pools, after the equivalent code of its documentation:
  \<^verbatim>\<open>result = [[]]; for pool in pools: result = [x+[y] for x in result for y in pool]\<close>.
\<close>

definition itertools_product :: "'a list list \<Rightarrow> 'a list list" where
  "itertools_product pools =
     foldl (\<lambda>result pool. concat (map (\<lambda>x. map (\<lambda>y. x @ [y]) pool) result)) [[]] pools"

subsection \<open>Construction: the plan table\<close>

text \<open>
  \<^verbatim>\<open>steps = OrderedDict(steps); columns = list(steps);
  for column in columns: steps[column] = OrderedDict(steps[column])\<close>
\<close>

definition ordered_steps ::
  "(string \<times> (string \<times> 'e) list) list \<Rightarrow> (string, (string, 'e) ordered_dict) ordered_dict" where
  "ordered_steps steps = map (\<lambda>(column, variants). (column, OrderedDict variants)) (OrderedDict steps)"

definition accept_from_banned_combos :: "string list \<Rightarrow> string \<times> string \<Rightarrow> bool" where
  "accept_from_banned_combos row_keys banned_combo =
     (if {fst banned_combo, snd banned_combo} - set row_keys = {} then False else True)"

definition column_keys :: "(string \<times> (string \<times> 'e) list) list \<Rightarrow> string list list" where
  "column_keys steps = map (\<lambda>(column, variants). od_keys variants) (ordered_steps steps)"

text \<open>
  The loop over the product of the column keys: a candidate is appended when \<^verbatim>\<open>all(accept)\<close>,
  as the OrderedDict made of \<^verbatim>\<open>zip(columns, row_keys)\<close>.
\<close>

definition plan_rows ::
  "(string \<times> (string \<times> 'e) list) list \<Rightarrow> (string \<times> string) list
     \<Rightarrow> (string, string) ordered_dict list" where
  "plan_rows steps banned_combos =
     map (\<lambda>row_keys. OrderedDict (zip (od_keys (ordered_steps steps)) row_keys))
       (filter (\<lambda>row_keys. list_all (\<lambda>a. a) (map (accept_from_banned_combos row_keys) banned_combos))
          (itertools_product (column_keys steps)))"

text \<open>
  A pandas DataFrame with the default integer index: the column labels and the rows,
  each row holding one cell per column. A cell \<open>None\<close> is a missing value (NaN).
\<close>

record 'c DataFrame =
  columns :: "string list"
  rows :: "'c option list list"

text \<open>
  \<^verbatim>\<open>DataFrame().from_dict(plan_rows)[columns]\<close>. The frame made of a list of dictionaries has
  their keys as columns and NaN where a dictionary lacks a key; selecting by a list of
  labels raises KeyError when a label is no column of the frame, that is, when no
  dictionary has it. The argument of the KeyError here is the first such label; pandas
  puts a message naming the requested labels there. Only the class of the exception is
  used below.
\<close>

definition from_dict_select ::
  "(string, 'c) ordered_dict list \<Rightarrow> string list \<Rightarrow> error + 'c DataFrame" where
  "from_dict_select dicts cols =
     (case filter (\<lambda>c. list_all (\<lambda>d. map_of d c = None) dicts) cols of
        c # _ \<Rightarrow> Inl (KeyError c)
      | [] \<Rightarrow> Inr \<lparr>columns = cols, rows = map (\<lambda>d. map (map_of d) cols) dicts\<rparr>)"

text \<open>
  A scikit-learn cross-validation generator, as far as the Pipeliner touches it: the
  attribute \<^verbatim>\<open>random_state\<close> is an integer or None.
\<close>

record cv =
  n_splits :: nat
  shuffle :: bool
  random_state :: "int option"

text \<open>
  The Pipeliner object. \<open>'x\<close> is the type of data sets, \<open>'e\<close> of transformer and
  estimator objects, \<open>'pv\<close> of parameter values. The attributes \<^verbatim>\<open>scores\<close>, \<^verbatim>\<open>asdf\<close> and
  \<^verbatim>\<open>asdfasdf\<close> are written and never read; they are left out. \<open>fit_transform_calls\<close> is no
  attribute of the class: it records, as (column, variant name), every call the
  Pipeliner makes to a transformer's \<^verbatim>\<open>fit_transform\<close>, in order, which is what an
  invocation counter on a transformer observes.
\<close>

record ('x, 'e, 'pv) Pipeliner =
  plan_table :: "string DataFrame"
  named_steps :: "(string, (string, 'e) ordered_dict) ordered_dict"
  eval_cv :: cv
  grid_cv :: cv
  param_grid :: "(string \<times> (string \<times> 'pv list) list) list"
  cached_X :: "(string, 'x) ordered_dict"
  best_params :: "string \<rightharpoonup> (string \<times> 'pv) list"
  fit_transform_calls :: "(string \<times> string) list"

definition Pipeliner_init ::
  "(string \<times> (string \<times> 'e) list) list \<Rightarrow> cv \<Rightarrow> cv
     \<Rightarrow> (string \<times> (string \<times> 'pv list) list) list \<Rightarrow> (string \<times> string) list
     \<Rightarrow> error + ('x, 'e, 'pv) Pipeliner" where
  "Pipeliner_init steps grid_cv0 eval_cv0 param_grid0 banned_combos =
     (case from_dict_select (plan_rows steps banned_combos) (od_keys (ordered_steps steps)) of
        Inl e \<Rightarrow> Inl e
      | Inr plan \<Rightarrow>
          Inr \<lparr>plan_table = plan, named_steps = ordered_steps steps, eval_cv = eval_cv0,
               grid_cv = grid_cv0, param_grid = param_grid0, cached_X = [],
               best_params = Map.empty, fit_transform_calls = []\<rparr>)"

subsection \<open>The library interface\<close>

text \<open>The fitted \<^verbatim>\<open>GridSearchCV\<close>: its attribute \<^verbatim>\<open>best_params_\<close>, and the rows of its
  attribute \<^verbatim>\<open>cv_results_\<close> (\<^verbatim>\<open>params\<close>, \<^verbatim>\<open>mean_test_score\<close>, \<^verbatim>\<open>std_test_score\<close> at the same
  index).\<close>

record ('pv, 's) grid_clf =
  clf_best_params :: "(string \<times> 'pv) list"
  clf_cv_results :: "((string \<times> 'pv) list \<times> 's \<times> 's) list"

text \<open>What \<^verbatim>\<open>get_scores\<close> returns: a numpy array of per-fold scores, or a Python list.\<close>

datatype 's scores = Array "'s list" | PyList "'s list"

text \<open>The value of a result cell: a string or a number.\<close>

datatype 's cell = Str string | Num 's

text \<open>
  The calls into scikit-learn, numpy and the built-in \<^verbatim>\<open>str\<close>. \<open>'y\<close> is the type of label
  vectors, \<open>'s\<close> of scalar scores, \<open>'p\<close> of prediction vectors. A pipeline is the list
  \<^verbatim>\<open>steps\<close> of (name, object) it is built from. Calls that search, predict or score may
  raise. \<open>fit_transform\<close> is called with the data alone (\<^verbatim>\<open>transformer.fit_transform(X)\<close>) and
  is a function of the transformer and the data: the properties of the cache are about
  deterministic transformers that return.
  \<open>score_func\<close> is \<^verbatim>\<open>check_scoring(estimator, scoring=scoring).__dict__['_score_func']\<close>.
\<close>

record ('x, 'y, 'e, 'pv, 's, 'p) sklearn =
  fit_transform :: "'e \<Rightarrow> 'x \<Rightarrow> 'x"
  set_params :: "'e \<Rightarrow> (string \<times> 'pv) list \<Rightarrow> error + 'e"
  GridSearchCV_fit ::
    "(string \<times> 'e) list \<Rightarrow> (string \<times> 'pv list) list \<Rightarrow> string \<Rightarrow> cv \<Rightarrow> 'x \<Rightarrow> 'y
       \<Rightarrow> error + ('pv, 's) grid_clf"
  cross_val_score :: "(string \<times> 'e) list \<Rightarrow> 'x \<Rightarrow> 'y \<Rightarrow> string \<Rightarrow> cv \<Rightarrow> error + 's list"
  cross_val_predict :: "(string \<times> 'e) list \<Rightarrow> 'x \<Rightarrow> 'y \<Rightarrow> cv \<Rightarrow> error + 'p"
  score_func :: "'e \<Rightarrow> string \<Rightarrow> error + ('y \<Rightarrow> 'p \<Rightarrow> error + 's)"
  np_mean :: "'s scores \<Rightarrow> 's"
  np_std :: "'s scores \<Rightarrow> 's"
  str_scores :: "'s scores \<Rightarrow> string"
  str_params :: "(string \<times> 'pv) list \<Rightarrow> string"

subsection \<open>The names bound in the module\<close>

text \<open>
  The methods refer to module-level names. The module \<^verbatim>\<open>copy\<close> of the standard library,
  as far as it is used: \<^verbatim>\<open>copy.copy\<close> of a list is a new list with the same elements.
\<close>

record py_module =
  copy :: "string list \<Rightarrow> string list"

definition copy_module :: py_module where
  "copy_module = \<lparr>copy = (\<lambda>xs. xs)\<rparr>"

text \<open>
  The import statements of \<^verbatim>\<open>core.py\<close> bind \<^verbatim>\<open>copy\<close> (line 3, \<^verbatim>\<open>import copy\<close>), \<^verbatim>\<open>os\<close>
  and the names imported from sklearn, collections, itertools, pandas, pickle, numpy and
  time. Of the modules among them only \<^verbatim>\<open>copy\<close> has a model here. No statement binds \<^verbatim>\<open>cp\<close>.
\<close>

definition core_globals :: "string \<Rightarrow> py_module option" where
  "core_globals name = (if name = ''copy'' then Some copy_module else None)"

text \<open>
  The module as it would be with the name \<^verbatim>\<open>cp\<close> bound to the module \<^verbatim>\<open>copy\<close>
  (\<^verbatim>\<open>import copy as cp\<close>), to see what the statements after line 289 do.
\<close>

definition repaired_globals :: "string \<Rightarrow> py_module option" where
  "repaired_globals name = (if name = ''cp'' \<or> name = ''copy'' then Some copy_module else None)"

subsection \<open>The transform cache\<close>

text \<open>
  The loop of \<^verbatim>\<open>remove_unmatched_caching_X\<close> over \<^verbatim>\<open>zip(row_keys, cached_keys)\<close>: it stops at
  the first mismatch; \<^verbatim>\<open>list.remove\<close> deletes the first occurrence and raises when there
  is none.
\<close>

fun unmatched_loop :: "(string \<times> string) list \<Rightarrow> string list \<Rightarrow> error + string list" where
  "unmatched_loop [] unmatched_caching_keys = Inr unmatched_caching_keys"
| "unmatched_loop ((row_key, cached_key) # rest) unmatched_caching_keys =
     (if \<not> row_key = cached_key then Inr unmatched_caching_keys
      else if row_key \<notin> set unmatched_caching_keys then Inl (LibraryError ''ValueError'')
      else unmatched_loop rest (remove1 row_key unmatched_caching_keys))"

text \<open>
  \<^verbatim>\<open>remove_unmatched_caching_X(row_keys)\<close>, in a module whose global names are \<open>globals\<close>:
  \<^verbatim>\<open>cp.copy(cached_keys)\<close> looks the name \<^verbatim>\<open>cp\<close> up first.
\<close>

definition remove_unmatched_caching_X ::
  "(string \<Rightarrow> py_module option) \<Rightarrow> string list \<Rightarrow> ('x, 'e, 'pv) Pipeliner
     \<Rightarrow> (error + unit) \<times> ('x, 'e, 'pv) Pipeliner" where
  "remove_unmatched_caching_X globals row_keys p =
     (let cached_keys = od_keys (cached_X p) in
      case globals ''cp'' of
        None \<Rightarrow> (Inl (NameError ''cp''), p)
      | Some cp \<Rightarrow>
          (case unmatched_loop (zip row_keys cached_keys) (copy cp cached_keys) of
             Inl e \<Rightarrow> (Inl e, p)
           | Inr unmatched_caching_keys \<Rightarrow>
               (Inr (), p\<lparr>cached_X := foldl od_delitem (cached_X p) unmatched_caching_keys\<rparr>)))"

text \<open>The loop of \<^verbatim>\<open>transform_X_from_last_cached\<close> over \<^verbatim>\<open>zip(row_keys, columns)\<close>.\<close>

fun transform_loop ::
  "('x, 'y, 'e, 'pv, 's, 'p) sklearn \<Rightarrow> string \<Rightarrow> (string \<times> string) list
     \<Rightarrow> ('x, 'e, 'pv) Pipeliner \<Rightarrow> (error + unit) \<times> ('x, 'e, 'pv) Pipeliner" where
  "transform_loop lib prev_key [] p = (Inr (), p)"
| "transform_loop lib prev_key ((row_key, column) # rest) p =
     (case od_getitem (named_steps p) column of
        Inl e \<Rightarrow> (Inl e, p)
      | Inr variants \<Rightarrow>
          (case od_getitem variants row_key of
             Inl e \<Rightarrow> (Inl e, p)
           | Inr transformer \<Rightarrow>
               (case od_getitem (cached_X p) prev_key of
                  Inl e \<Rightarrow> (Inl e, p)
                | Inr X \<Rightarrow>
                    transform_loop lib row_key rest
                      (p\<lparr>cached_X := od_setitem (cached_X p) row_key (fit_transform lib transformer X),
                         fit_transform_calls := fit_transform_calls p @ [(column, row_key)]\<rparr>))))"

definition transform_X_from_last_cached ::
  "('x, 'y, 'e, 'pv, 's, 'p) sklearn \<Rightarrow> string list \<Rightarrow> string list
     \<Rightarrow> ('x, 'e, 'pv) Pipeliner \<Rightarrow> (error + unit) \<times> ('x, 'e, 'pv) Pipeliner" where
  "transform_X_from_last_cached lib row_keys cols p =
     (case od_keys (cached_X p) of
        [] \<Rightarrow> (Inl IndexError, p)
      | k # ks \<Rightarrow> transform_loop lib (last (k # ks)) (zip row_keys cols) p)"

text \<open>
  \<^verbatim>\<open>for i in range(cached_keys_length): del row_keys[0]; del columns[0]\<close>; deleting from
  an empty list raises IndexError.
\<close>

fun del_heads :: "nat \<Rightarrow> string list \<Rightarrow> string list \<Rightarrow> error + (string list \<times> string list)" where
  "del_heads 0 row_keys cols = Inr (row_keys, cols)"
| "del_heads (Suc n) [] cols = Inl IndexError"
| "del_heads (Suc n) (k # row_keys) [] = Inl IndexError"
| "del_heads (Suc n) (k # row_keys) (c # cols) = del_heads n row_keys cols"

text \<open>\<^verbatim>\<open>transform_with_caching(X, y, row_keys)\<close> in a module whose global names are \<open>globals\<close>.\<close>

definition transform_with_caching_under ::
  "(string \<Rightarrow> py_module option) \<Rightarrow> ('x, 'y, 'e, 'pv, 's, 'p) sklearn \<Rightarrow> 'x \<Rightarrow> 'y \<Rightarrow> string list
     \<Rightarrow> ('x, 'e, 'pv) Pipeliner \<Rightarrow> (error + 'x \<times> 'y) \<times> ('x, 'e, 'pv) Pipeliner" where
  "transform_with_caching_under globals lib X y row_keys p =
     (let cols = take (length row_keys) (columns (plan_table p)) in
      case
        (if ''init'' \<notin> set (od_keys (cached_X p))
         then transform_X_from_last_cached lib row_keys cols
                (p\<lparr>cached_X := od_setitem (cached_X p) ''init'' X\<rparr>)
         else
           (case remove_unmatched_caching_X globals (''init'' # row_keys) p of
              (Inl e, p1) \<Rightarrow> (Inl e, p1)
            | (Inr u, p1) \<Rightarrow>
                (case del_heads (length (od_keys (cached_X p1))) (''init'' # row_keys) (''init'' # cols) of
                   Inl e \<Rightarrow> (Inl e, p1)
                 | Inr (row_keys2, cols2) \<Rightarrow> transform_X_from_last_cached lib row_keys2 cols2 p1)))
      of
        (Inl e, p2) \<Rightarrow> (Inl e, p2)
      | (Inr u, p2) \<Rightarrow>
          (case od_keys (cached_X p2) of
             [] \<Rightarrow> (Inl IndexError, p2)
           | k # ks \<Rightarrow>
               (case od_getitem (cached_X p2) (last (k # ks)) of
                  Inl e \<Rightarrow> (Inl e, p2)
                | Inr X_last \<Rightarrow> (Inr (X_last, y), p2))))"

text \<open>The method of the class, in the module as it is written.\<close>

definition transform_with_caching ::
  "('x, 'y, 'e, 'pv, 's, 'p) sklearn \<Rightarrow> 'x \<Rightarrow> 'y \<Rightarrow> string list
     \<Rightarrow> ('x, 'e, 'pv) Pipeliner \<Rightarrow> (error + 'x \<times> 'y) \<times> ('x, 'e, 'pv) Pipeliner" where
  "transform_with_caching = transform_with_caching_under core_globals"

subsection \<open>Grid search and evaluation\<close>

text \<open>The slice \<^verbatim>\<open>xs[-n:]\<close>: the last \<open>n\<close> elements, and all of them when \<open>n\<close> is 0 or too large.\<close>

definition last_n :: "nat \<Rightarrow> 'a list \<Rightarrow> 'a list" where
  "last_n n xs = (if n = 0 then xs else drop (length xs - n) xs)"

text \<open>\<^verbatim>\<open>''.join(row_keys) + str(scoring)\<close>\<close>

definition param_key :: "string list \<Rightarrow> string \<Rightarrow> string" where
  "param_key row_keys scoring = concat row_keys @ scoring"

text \<open>
  \<^verbatim>\<open>for row_key, column in zip(row_keys, columns):
      steps.append((row_key, self.named_steps[column][row_key]))\<close>
\<close>

fun build_steps ::
  "(string, (string, 'e) ordered_dict) ordered_dict \<Rightarrow> (string \<times> string) list
     \<Rightarrow> error + (string \<times> 'e) list" where
  "build_steps ns [] = Inr []"
| "build_steps ns ((row_key, column) # rest) =
     (case od_getitem ns column of
        Inl e \<Rightarrow> Inl e
      | Inr variants \<Rightarrow>
          (case od_getitem variants row_key of
             Inl e \<Rightarrow> Inl e
           | Inr obj \<Rightarrow>
               (case build_steps ns rest of
                  Inl e \<Rightarrow> Inl e
                | Inr steps \<Rightarrow> Inr ((row_key, obj) # steps))))"

text \<open>Equality of two Python dictionaries given by their items.\<close>

definition dict_eq :: "('k \<times> 'v) list \<Rightarrow> ('k \<times> 'v) list \<Rightarrow> bool" where
  "dict_eq a b = (set a = set b)"

definition grid_mean_key :: "string \<Rightarrow> string" where
  "grid_mean_key scoring = ''grid_'' @ scoring @ ''_mean''"

definition grid_std_key :: "string \<Rightarrow> string" where
  "grid_std_key scoring = ''grid_'' @ scoring @ ''_std''"

definition grid_best_params_key :: "string \<Rightarrow> string" where
  "grid_best_params_key scoring = ''grid_'' @ scoring @ ''_best_params''"

text \<open>
  \<^verbatim>\<open>get_grid_search_results(X, y, row_keys, scoring)\<close>. The result is a dictionary from
  column label to cell value.
\<close>

definition get_grid_search_results ::
  "('x, 'y, 'e, 'pv, 's, 'p) sklearn \<Rightarrow> 'x \<Rightarrow> 'y \<Rightarrow> string list \<Rightarrow> string
     \<Rightarrow> ('x, 'e, 'pv) Pipeliner
     \<Rightarrow> (error + (string, 's cell) ordered_dict) \<times> ('x, 'e, 'pv) Pipeliner" where
  "get_grid_search_results lib X y row_keys scoring p =
     (case row_keys of
        [] \<Rightarrow> (Inl IndexError, p)
      | k # ks \<Rightarrow>
          (let classifier_key = last (k # ks) in
           case map_of (param_grid p) classifier_key of
             Some grid \<Rightarrow>
               (let cols = last_n (length row_keys) (columns (plan_table p)) in
                case build_steps (named_steps p) (zip row_keys cols) of
                  Inl e \<Rightarrow> (Inl e, p)
                | Inr steps \<Rightarrow>
                    (let param_grid1 =
                           OrderedDict (map (\<lambda>(key, value). (classifier_key @ ''__'' @ key, value)) grid)
                     in
                     case GridSearchCV_fit lib steps param_grid1 scoring (grid_cv p) X y of
                       Inl e \<Rightarrow> (Inl e, p)
                     | Inr clf \<Rightarrow>
                         (let best_params1 =
                                OrderedDict (map (\<lambda>(key, value). (drop (length classifier_key + 2) key, value))
                                               (clf_best_params clf));
                              p1 = p\<lparr>best_params := (best_params p)(param_key row_keys scoring \<mapsto> best_params1)\<rparr>;
                              results =
                                foldl (\<lambda>results (params, mean_test_score, std_test_score).
                                         if dict_eq params (clf_best_params clf)
                                         then od_setitem
                                                (od_setitem
                                                   (od_setitem results (grid_mean_key scoring) (Num mean_test_score))
                                                   (grid_std_key scoring) (Num std_test_score))
                                                (grid_best_params_key scoring) (Str (str_params lib best_params1))
                                         else results)
                                      [] (clf_cv_results clf)
                          in (Inr results, p1))))
           | None \<Rightarrow>
               (let p1 = p\<lparr>best_params := (best_params p)(param_key row_keys scoring \<mapsto> [])\<rparr>;
                    results =
                      od_setitem
                        (od_setitem
                           (od_setitem [] (grid_mean_key scoring) (Str ''NaN''))
                           (grid_std_key scoring) (Str ''NaN''))
                        (grid_best_params_key scoring) (Str ''NaN'')
                in (Inr results, p1))))"

text \<open>
  The object \<^verbatim>\<open>steps[-1][1]\<close> is the object held in \<^verbatim>\<open>named_steps\<close>: \<^verbatim>\<open>set_params\<close> changes it
  in both places. \<open>store_object\<close> writes the changed object back into \<^verbatim>\<open>named_steps\<close>, at
  the one entry (column, variant name) it was taken from. Objects have no identity here:
  the entries of \<^verbatim>\<open>named_steps\<close> are taken to hold pairwise different objects, so a caller
  that puts one estimator object under two names is outside the model.
\<close>

definition store_object ::
  "(string, (string, 'e) ordered_dict) ordered_dict \<Rightarrow> string \<Rightarrow> string \<Rightarrow> 'e
     \<Rightarrow> (string, (string, 'e) ordered_dict) ordered_dict" where
  "store_object ns column row_key obj =
     map (\<lambda>(c, variants). if c = column then (c, od_setitem variants row_key obj) else (c, variants)) ns"

text \<open>
  Lines 442 to 449 of \<^verbatim>\<open>get_scores\<close>: the steps of the pipeline are collected and the best
  parameters stored under \<^verbatim>\<open>param_key\<close> are set on the last object. \<^verbatim>\<open>steps[-1]\<close> is
  evaluated before \<^verbatim>\<open>self.best_params[param_key]\<close>.
\<close>

definition prepare_steps ::
  "('x, 'y, 'e, 'pv, 's, 'p) sklearn \<Rightarrow> string list \<Rightarrow> string \<Rightarrow> ('x, 'e, 'pv) Pipeliner
     \<Rightarrow> (error + (string \<times> 'e) list) \<times> ('x, 'e, 'pv) Pipeliner" where
  "prepare_steps lib row_keys scoring p =
     (let cols = last_n (length row_keys) (columns (plan_table p)) in
      case build_steps (named_steps p) (zip row_keys cols) of
        Inl e \<Rightarrow> (Inl e, p)
      | Inr steps \<Rightarrow>
          (case steps of
             [] \<Rightarrow> (Inl IndexError, p)
           | s # ss \<Rightarrow>
               (case best_params p (param_key row_keys scoring) of
                  None \<Rightarrow> (Inl (KeyError (param_key row_keys scoring)), p)
                | Some params \<Rightarrow>
                    (case set_params lib (snd (last steps)) params of
                       Inl e \<Rightarrow> (Inl e, p)
                     | Inr obj \<Rightarrow>
                         (Inr (butlast steps @ [(fst (last steps), obj)]),
                          p\<lparr>named_steps :=
                               store_object (named_steps p) (snd (last (zip row_keys cols)))
                                 (fst (last steps)) obj\<rparr>)))))"

text \<open>
  The loop \<^verbatim>\<open>for i in range(collect_n)\<close> of \<^verbatim>\<open>get_scores\<close>, with the iterations still to run;
  \<^verbatim>\<open>self.eval_cv.random_state += 1\<close> raises TypeError on None.
\<close>

fun collect_loop ::
  "('x, 'y, 'e, 'pv, 's, 'p) sklearn \<Rightarrow> (string \<times> 'e) list \<Rightarrow> 'x \<Rightarrow> 'y \<Rightarrow> string \<Rightarrow> nat
     \<Rightarrow> 's list \<Rightarrow> ('x, 'e, 'pv) Pipeliner \<Rightarrow> (error + 's list) \<times> ('x, 'e, 'pv) Pipeliner" where
  "collect_loop lib steps X y scoring 0 scores p = (Inr scores, p)"
| "collect_loop lib steps X y scoring (Suc n) scores p =
     (case cross_val_predict lib steps X y (eval_cv p) of
        Inl e \<Rightarrow> (Inl e, p)
      | Inr fold_prediction \<Rightarrow>
          (case score_func lib (snd (last steps)) scoring of
             Inl e \<Rightarrow> (Inl e, p)
           | Inr metric \<Rightarrow>
               (case metric y fold_prediction of
                  Inl e \<Rightarrow> (Inl e, p)
                | Inr score \<Rightarrow>
                    (case random_state (eval_cv p) of
                       None \<Rightarrow> (Inl TypeError, p)
                     | Some r \<Rightarrow>
                         collect_loop lib steps X y scoring n (scores @ [score])
                           (p\<lparr>eval_cv := (eval_cv p)\<lparr>random_state := Some (r + 1)\<rparr>\<rparr>)))))"

text \<open>
  \<^verbatim>\<open>get_scores(X, y, row_keys, scoring, collect_n)\<close>; \<^verbatim>\<open>collect_n\<close> is None or an integer, and
  \<^verbatim>\<open>not collect_n\<close> holds for None and for 0. \<^verbatim>\<open>range\<close> of a negative number is empty.
\<close>

definition get_scores ::
  "('x, 'y, 'e, 'pv, 's, 'p) sklearn \<Rightarrow> 'x \<Rightarrow> 'y \<Rightarrow> string list \<Rightarrow> string \<Rightarrow> int option
     \<Rightarrow> ('x, 'e, 'pv) Pipeliner \<Rightarrow> (error + 's scores) \<times> ('x, 'e, 'pv) Pipeliner" where
  "get_scores lib X y row_keys scoring collect_n p =
     (case prepare_steps lib row_keys scoring p of
        (Inl e, p1) \<Rightarrow> (Inl e, p1)
      | (Inr steps, p1) \<Rightarrow>
          (if (case collect_n of None \<Rightarrow> True | Some n \<Rightarrow> n = 0)
           then
             (case cross_val_score lib steps X y scoring (eval_cv p1) of
                Inl e \<Rightarrow> (Inl e, p1)
              | Inr scores \<Rightarrow> (Inr (Array scores), p1))
           else
             (let init_random_state = random_state (eval_cv p1) in
              case collect_loop lib steps X y scoring
                     (case collect_n of None \<Rightarrow> 0 | Some n \<Rightarrow> nat n) [] p1 of
                (Inl e, p2) \<Rightarrow> (Inl e, p2)
              | (Inr scores, p2) \<Rightarrow>
                  (Inr (PyList scores),
                   p2\<lparr>eval_cv := (eval_cv p2)\<lparr>random_state := init_random_state\<rparr>\<rparr>))))"

subsection \<open>The result table\<close>

definition eval_mean_key :: "string \<Rightarrow> string" where
  "eval_mean_key metric = ''eval_'' @ metric @ ''_mean''"

definition eval_std_key :: "string \<Rightarrow> string" where
  "eval_std_key metric = ''eval_'' @ metric @ ''_std''"

definition eval_scores_key :: "string \<Rightarrow> string" where
  "eval_scores_key metric = ''eval_'' @ metric @ ''_scores''"

definition grid_steps :: "string \<Rightarrow> string list" where
  "grid_steps metric = [grid_mean_key metric, grid_std_key metric, grid_best_params_key metric]"

definition eval_steps :: "string \<Rightarrow> string list" where
  "eval_steps metric = [eval_mean_key metric, eval_std_key metric, eval_scores_key metric]"

text \<open>The argument \<^verbatim>\<open>scoring\<close> of \<^verbatim>\<open>get_results\<close>: one metric name or a list of them.\<close>

datatype scoring_arg = ScoringStr string | ScoringList "string list"

text \<open>
  \<^verbatim>\<open>list(row[labels].values)\<close> for a row of the plan table: KeyError for a label that is no
  column. A NaN cell is no variant name and is reported as a KeyError as well; the plan
  table built by the constructor has no such cell.
\<close>

fun row_values :: "string list \<Rightarrow> string option list \<Rightarrow> string list \<Rightarrow> error + string list" where
  "row_values cols row [] = Inr []"
| "row_values cols row (label # labels) =
     (case map_of (zip cols row) label of
        None \<Rightarrow> Inl (KeyError label)
      | Some None \<Rightarrow> Inl (KeyError ''nan'')
      | Some (Some v) \<Rightarrow>
          (case row_values cols row labels of
             Inl e \<Rightarrow> Inl e
           | Inr vs \<Rightarrow> Inr (v # vs)))"

text \<open>
  \<^verbatim>\<open>results.loc[idx][key] = value\<close>. All columns of \<^verbatim>\<open>results\<close> have dtype object, so that
  \<^verbatim>\<open>results.loc[idx]\<close> is a view of the row and the assignment reaches the frame: the cell of
  row \<open>idx\<close> under the label \<open>key\<close> is replaced.
\<close>

definition loc_setitem :: "'c DataFrame \<Rightarrow> nat \<Rightarrow> string \<Rightarrow> 'c \<Rightarrow> 'c DataFrame" where
  "loc_setitem df idx key v =
     df\<lparr>rows := (rows df)[idx := map (\<lambda>(c, old). if c = key then Some v else old)
                                   (zip (columns df) (rows df ! idx))]\<rparr>"


text \<open>
  \<^verbatim>\<open>results = DataFrame(columns=columns); results[plan_columns] = self.plan_table\<close>: the rows
  of the plan, with NaN in the metric columns.
\<close>

definition results_init :: "string DataFrame \<Rightarrow> string list \<Rightarrow> 's cell DataFrame" where
  "results_init plan scoring =
     (let metric_cols = concat (map (\<lambda>metric. grid_steps metric @ eval_steps metric) scoring)
      in \<lparr>columns = columns plan @ metric_cols,
          rows = map (\<lambda>row. map (map_option Str) row @ replicate (length metric_cols) None) (rows plan)\<rparr>)"

text \<open>
  The body of \<^verbatim>\<open>for metric in scoring\<close> for the row \<open>idx\<close>. When a call raises, the table is
  lost; the Pipeliner keeps what was done to it. Writing the log is left out.
\<close>

fun metric_loop ::
  "('x, 'y, 'e, 'pv, 's, 'p) sklearn \<Rightarrow> 'x \<Rightarrow> 'y \<Rightarrow> string list \<Rightarrow> string option list
     \<Rightarrow> string list \<Rightarrow> int option \<Rightarrow> nat \<Rightarrow> string list
     \<Rightarrow> 's cell DataFrame \<Rightarrow> ('x, 'e, 'pv) Pipeliner
     \<Rightarrow> (error + 's cell DataFrame) \<times> ('x, 'e, 'pv) Pipeliner" where
  "metric_loop lib X_featured y cols row without_caching collect_n idx [] results p = (Inr results, p)"
| "metric_loop lib X_featured y cols row without_caching collect_n idx (metric # rest) results p =
     (case row_values cols row without_caching of
        Inl e \<Rightarrow> (Inl e, p)
      | Inr ml_keys \<Rightarrow>
          (case get_grid_search_results lib X_featured y ml_keys metric p of
             (Inl e, p1) \<Rightarrow> (Inl e, p1)
           | (Inr grid_res, p1) \<Rightarrow>
               (let results1 = foldl (\<lambda>res (key, v). loc_setitem res idx key v) results grid_res in
                case get_scores lib X_featured y ml_keys metric collect_n p1 of
                  (Inl e, p2) \<Rightarrow> (Inl e, p2)
                | (Inr scores, p2) \<Rightarrow>
                    metric_loop lib X_featured y cols row without_caching collect_n idx rest
                      (loc_setitem
                         (loc_setitem
                            (loc_setitem results1 idx (eval_mean_key metric) (Num (np_mean lib scores)))
                            idx (eval_std_key metric) (Num (np_std lib scores)))
                         idx (eval_scores_key metric) (Str (str_scores lib scores)))
                      p2)))"

text \<open>The loop \<^verbatim>\<open>for idx in self.plan_table.index\<close>, over the rows with their index.\<close>

fun row_loop ::
  "(string \<Rightarrow> py_module option) \<Rightarrow> ('x, 'y, 'e, 'pv, 's, 'p) sklearn \<Rightarrow> 'x \<Rightarrow> 'y \<Rightarrow> string list
     \<Rightarrow> string list \<Rightarrow> string list \<Rightarrow> string list \<Rightarrow> int option
     \<Rightarrow> (nat \<times> string option list) list
     \<Rightarrow> 's cell DataFrame \<Rightarrow> ('x, 'e, 'pv) Pipeliner
     \<Rightarrow> (error + 's cell DataFrame) \<times> ('x, 'e, 'pv) Pipeliner" where
  "row_loop globals lib X y cols caching_steps without_caching scoring collect_n [] results p =
     (Inr results, p)"
| "row_loop globals lib X y cols caching_steps without_caching scoring collect_n ((idx, row) # rest) results p =
     (case row_values cols row caching_steps of
        Inl e \<Rightarrow> (Inl e, p)
      | Inr caching_keys \<Rightarrow>
          (case transform_with_caching_under globals lib X y caching_keys p of
             (Inl e, p1) \<Rightarrow> (Inl e, p1)
           | (Inr (X_featured, y1), p1) \<Rightarrow>
               (case metric_loop lib X_featured y1 cols row without_caching collect_n idx scoring results p1 of
                  (Inl e, p2) \<Rightarrow> (Inl e, p2)
                | (Inr results1, p2) \<Rightarrow>
                    row_loop globals lib X y1 cols caching_steps without_caching scoring collect_n rest
                      results1 p2)))"

text \<open>
  \<^verbatim>\<open>get_results(X, y, caching_steps, scoring, logs_file, collect_n)\<close> in a module whose
  global names are \<open>globals\<close>; the log file is not modelled.
\<close>

definition get_results_under ::
  "(string \<Rightarrow> py_module option) \<Rightarrow> ('x, 'y, 'e, 'pv, 's, 'p) sklearn \<Rightarrow> 'x \<Rightarrow> 'y \<Rightarrow> string list
     \<Rightarrow> scoring_arg \<Rightarrow> int option \<Rightarrow> ('x, 'e, 'pv) Pipeliner
     \<Rightarrow> (error + 's cell DataFrame) \<times> ('x, 'e, 'pv) Pipeliner" where
  "get_results_under globals lib X y caching_steps scoring collect_n p =
     (let scoring1 = (case scoring of ScoringStr s \<Rightarrow> [s] | ScoringList ms \<Rightarrow> ms);
          cols = columns (plan_table p);
          without_caching = filter (\<lambda>step. step \<notin> set caching_steps) cols
      in row_loop globals lib X y cols caching_steps without_caching scoring1 collect_n
           (zip [0 ..< length (rows (plan_table p))] (rows (plan_table p)))
           (results_init (plan_table p) scoring1) p)"

text \<open>The method of the class, in the module as it is written.\<close>

definition get_results ::
  "('x, 'y, 'e, 'pv, 's, 'p) sklearn \<Rightarrow> 'x \<Rightarrow> 'y \<Rightarrow> string list
     \<Rightarrow> scoring_arg \<Rightarrow> int option \<Rightarrow> ('x, 'e, 'pv) Pipeliner
     \<Rightarrow> (error + 's cell DataFrame) \<times> ('x, 'e, 'pv) Pipeliner" where
  "get_results = get_results_under core_globals"

subsection \<open>The specification's words\<close>

text \<open>A banned combo matches a row when both of its names are among the row's names.\<close>

definition both_names_appear :: "string \<times> string \<Rightarrow> string list \<Rightarrow> bool" where
  "both_names_appear banned_combo row = (fst banned_combo \<in> set row \<and> snd banned_combo \<in> set row)"

text \<open>
  The Cartesian product of the variant-name lists in product order (the first list varies
  slowest), without the rows that some banned combo matches.
\<close>

definition filtered_product :: "string list list \<Rightarrow> (string \<times> string) list \<Rightarrow> string list list" where
  "filtered_product variant_names banned_combos =
     filter (\<lambda>row. \<not> list_ex (\<lambda>b. both_names_appear b row) banned_combos) (product_lists variant_names)"

text \<open>
  The cacheable prefix of a row recomputed from scratch: the transformers named by the
  row's (variant name, column) pairs, applied in order to the original input.
\<close>

fun recompute_from_scratch ::
  "('x, 'y, 'e, 'pv, 's, 'p) sklearn \<Rightarrow> (string, (string, 'e) ordered_dict) ordered_dict
     \<Rightarrow> (string \<times> string) list \<Rightarrow> 'x \<Rightarrow> error + 'x" where
  "recompute_from_scratch lib ns [] X = Inr X"
| "recompute_from_scratch lib ns ((row_key, column) # rest) X =
     (case od_getitem ns column of
        Inl e \<Rightarrow> Inl e
      | Inr variants \<Rightarrow>
          (case od_getitem variants row_key of
             Inl e \<Rightarrow> Inl e
           | Inr transformer \<Rightarrow> recompute_from_scratch lib ns rest (fit_transform lib transformer X)))"

subsection \<open>A concrete run\<close>

text \<open>
  A library over natural numbers, to run the methods on: a transformer is a number that
  \<^verbatim>\<open>fit_transform\<close> adds to the data, the predictions of a cross-validated pass depend on
  the seed, and the grid search picks the first candidate of each parameter.
\<close>

definition example_lib :: "(nat, nat, nat, nat, nat, nat) sklearn" where
  "example_lib =
     \<lparr>fit_transform = (\<lambda>e x. e + x),
      set_params = (\<lambda>e ps. Inr (e + sum_list (map snd ps))),
      GridSearchCV_fit = (\<lambda>steps grid scoring c X y.
         Inr \<lparr>clf_best_params = map (\<lambda>(k, vs). (k, case vs of [] \<Rightarrow> 0 | v # _ \<Rightarrow> v)) grid,
              clf_cv_results = [(map (\<lambda>(k, vs). (k, case vs of [] \<Rightarrow> 0 | v # _ \<Rightarrow> v)) grid, 9, 1)]\<rparr>),
      cross_val_score = (\<lambda>steps X y scoring c. Inr [X, y, n_splits c]),
      cross_val_predict = (\<lambda>steps X y c. Inr (X + (case random_state c of None \<Rightarrow> 0 | Some r \<Rightarrow> nat r))),
      score_func = (\<lambda>e scoring. Inr (\<lambda>y pred. Inr (y + pred))),
      np_mean = (\<lambda>sc. case sc of Array v \<Rightarrow> sum_list v | PyList v \<Rightarrow> sum_list v),
      np_std = (\<lambda>sc. case sc of Array v \<Rightarrow> length v | PyList v \<Rightarrow> length v),
      str_scores = (\<lambda>sc. case sc of Array v \<Rightarrow> ''array'' | PyList v \<Rightarrow> ''list''),
      str_params = (\<lambda>ps. concat (map fst ps))\<rparr>"

definition example_cv :: cv where
  "example_cv = \<lparr>n_splits = 5, shuffle = True, random_state = Some 1\<rparr>"

text \<open>The steps of the first example scenario of the specification.\<close>

definition example_steps :: "(string \<times> (string \<times> nat) list) list" where
  "example_steps =
     [(''Scaler'', [(''minmax'', 10), (''standard'', 20)]),
      (''Classifier'', [(''LR'', 1), (''SVC'', 2)])]"

definition example_param_grid :: "(string \<times> (string \<times> nat list) list) list" where
  "example_param_grid = [(''LR'', [(''penalty'', [1, 2])])]"

text \<open>The Pipeliner constructed from them with the banned combo (standard, SVC).\<close>

definition example_pipeliner :: "(nat, nat, nat) Pipeliner" where
  "example_pipeliner =
     \<lparr>plan_table = \<lparr>columns = [''Scaler'', ''Classifier''],
                     rows = [[Some ''minmax'', Some ''LR''], [Some ''minmax'', Some ''SVC''],
                             [Some ''standard'', Some ''LR'']]\<rparr>,
      named_steps = example_steps, eval_cv = example_cv, grid_cv = example_cv,
      param_grid = example_param_grid, cached_X = [],
      best_params = Map.empty, fit_transform_calls = []\<rparr>"

text \<open>The same Pipeliner after \<^verbatim>\<open>transform_with_caching(100, 7, ['minmax'])\<close>.\<close>

definition example_after_first :: "(nat, nat, nat) Pipeliner" where
  "example_after_first =
     example_pipeliner\<lparr>cached_X := [(''init'', 100), (''minmax'', 110)],
                       fit_transform_calls := [(''Scaler'', ''minmax'')]\<rparr>"

text \<open>
  A Pipeliner with three cached steps, the first and the third of which both have a
  variant called \<^verbatim>\<open>none\<close>.
\<close>

definition dup_pipeliner :: "(nat, nat, nat) Pipeliner" where
  "dup_pipeliner =
     \<lparr>plan_table = \<lparr>columns = [''Scaler'', ''Reducer'', ''Selector''],
                     rows = [[Some ''none'', Some ''pca'', Some ''none'']]\<rparr>,
      named_steps = [(''Scaler'', [(''none'', 1)]), (''Reducer'', [(''pca'', 10)]),
                     (''Selector'', [(''none'', 100)])],
      eval_cv = example_cv, grid_cv = example_cv,
      param_grid = [], cached_X = [],
      best_params = Map.empty, fit_transform_calls = []\<rparr>"

text \<open>
  A Pipeliner whose modelling steps have the variants \<^verbatim>\<open>ab\<close>, \<^verbatim>\<open>a\<close> and \<^verbatim>\<open>c\<close>, \<^verbatim>\<open>bc\<close>; only
  \<^verbatim>\<open>c\<close> has a parameter grid.
\<close>

definition collision_pipeliner :: "(nat, nat, nat) Pipeliner" where
  "collision_pipeliner =
     \<lparr>plan_table = \<lparr>columns = [''Reducer'', ''Classifier''],
                     rows = [[Some ''ab'', Some ''c''], [Some ''ab'', Some ''bc''],
                             [Some ''a'', Some ''c''], [Some ''a'', Some ''bc'']]\<rparr>,
      named_steps = [(''Reducer'', [(''ab'', 1), (''a'', 2)]), (''Classifier'', [(''c'', 30), (''bc'', 40)])],
      eval_cv = example_cv, grid_cv = example_cv,
      param_grid = [(''c'', [(''C'', [5, 6])])], cached_X = [],
      best_params = Map.empty, fit_transform_calls = []\<rparr>"


subsection \<open>The values of a run\<close>






section \<open>Properties\<close>

subsection \<open>Ordered dictionaries\<close>

lemma od_setitem_keys:
  "od_keys (od_setitem d k v) = (if k \<in> set (od_keys d) then od_keys d else od_keys d @ [k])"
  by (induction d k v rule: od_setitem.induct) (auto simp: od_keys_def)

lemma od_setitem_fresh: "k \<notin> set (od_keys d) \<Longrightarrow> od_setitem d k v = d @ [(k, v)]"
  by (induction d k v rule: od_setitem.induct) (auto simp: od_keys_def)

lemma foldl_setitem_distinct:
  "distinct (od_keys d) \<Longrightarrow> distinct (od_keys (foldl (\<lambda>d (k, v). od_setitem d k v) d xs))"
proof (induction xs arbitrary: d)
  case Nil then show ?case by simp
next
  case (Cons x xs)
  obtain k v where x: "x = (k, v)" by (cases x)
  show ?case using Cons.prems by (auto simp: x od_setitem_keys intro!: Cons.IH)
qed

lemma OrderedDict_distinct: "distinct (od_keys (OrderedDict xs))"
  unfolding OrderedDict_def by (rule foldl_setitem_distinct) (simp add: od_keys_def)

lemma foldl_setitem_fresh:
  "distinct (map fst xs) \<Longrightarrow> set (map fst xs) \<inter> set (od_keys d) = {}
     \<Longrightarrow> foldl (\<lambda>d (k, v). od_setitem d k v) d xs = d @ xs"
proof (induction xs arbitrary: d)
  case Nil then show ?case by simp
next
  case (Cons x xs)
  obtain k v where x: "x = (k, v)" by (cases x)
  have 1: "od_setitem d k v = d @ [(k, v)]"
    using Cons.prems by (intro od_setitem_fresh) (auto simp: x)
  have "foldl (\<lambda>d (k, v). od_setitem d k v) (d @ [(k, v)]) xs = (d @ [(k, v)]) @ xs"
    using Cons.prems by (intro Cons.IH) (auto simp: x od_keys_def)
  then show ?case by (simp add: x 1)
qed

lemma OrderedDict_distinct_id: "distinct (map fst xs) \<Longrightarrow> OrderedDict xs = xs"
  unfolding OrderedDict_def using foldl_setitem_fresh [of xs "[]"] by (simp add: od_keys_def)

lemma map_of_last_key:
  "d \<noteq> [] \<Longrightarrow> distinct (od_keys d) \<Longrightarrow> map_of d (fst (last d)) = Some (snd (last d))"
  by (induction d) (auto simp: od_keys_def)

subsection \<open>The plan table\<close>

lemma itertools_product_foldl:
  "foldl (\<lambda>result pool. concat (map (\<lambda>x. map (\<lambda>y. x @ [y]) pool) result)) res pools
     = concat (map (\<lambda>x. map ((@) x) (product_lists pools)) res)"
proof (induction pools arbitrary: res)
  case Nil
  show ?case by (induction res) simp_all
next
  case (Cons pool pools)
  have "concat (map (\<lambda>x. map ((@) x) (product_lists pools)) (concat (map (\<lambda>x. map (\<lambda>y. x @ [y]) pool) res)))
      = concat (map (\<lambda>x. map ((@) x) (concat (map (\<lambda>y. map ((#) y) (product_lists pools)) pool))) res)"
  proof (induction res)
    case Nil
    show ?case by simp
  next
    case (Cons r res)
    have "concat (map (\<lambda>x. map ((@) x) (product_lists pools)) (map (\<lambda>y. r @ [y]) pool))
        = map ((@) r) (concat (map (\<lambda>y. map ((#) y) (product_lists pools)) pool))"
      by (induction pool) simp_all
    with Cons show ?case by simp
  qed
  with Cons.IH show ?case by simp
qed

lemma itertools_product_eq: "itertools_product pools = product_lists pools"
proof -
  have "map ((@) []) (product_lists pools) = product_lists pools"
    by (induction "product_lists pools") simp_all
  then show ?thesis by (simp add: itertools_product_def itertools_product_foldl)
qed

lemma ordered_steps_keys_distinct: "distinct (od_keys (ordered_steps steps))"
proof -
  have "od_keys (ordered_steps steps) = od_keys (OrderedDict steps)"
    by (simp add: ordered_steps_def od_keys_def comp_def case_prod_beta)
  then show ?thesis by (simp add: OrderedDict_distinct)
qed

lemma length_column_keys: "length (column_keys steps) = length (od_keys (ordered_steps steps))"
  by (simp add: column_keys_def od_keys_def)

lemma map_of_zip_row:
  "length cols = length row \<Longrightarrow> distinct cols \<Longrightarrow> map (map_of (zip cols row)) cols = map Some row"
proof (induction cols row rule: list_induct2)
  case Nil then show ?case by simp
next
  case (Cons c cols r row)
  have "map (\<lambda>a. if a = c then Some r else map_of (zip cols row) a) cols = map (map_of (zip cols row)) cols"
    using Cons.prems by (intro map_cong) auto
  with Cons show ?case by simp
qed

lemma accept_iff:
  "list_all (\<lambda>a. a) (map (accept_from_banned_combos row) banned)
     \<longleftrightarrow> \<not> list_ex (\<lambda>b. both_names_appear b row) banned"
  by (induction banned) (auto simp: accept_from_banned_combos_def both_names_appear_def)

lemma plan_rows_eq:
  "plan_rows steps banned =
     map (\<lambda>row. zip (od_keys (ordered_steps steps)) row) (filtered_product (column_keys steps) banned)"
proof -
  have od: "OrderedDict (zip (od_keys (ordered_steps steps)) row) = zip (od_keys (ordered_steps steps)) row" for row
    by (rule OrderedDict_distinct_id) (simp add: ordered_steps_keys_distinct map_fst_zip_take distinct_take)
  show ?thesis
    by (simp add: plan_rows_def filtered_product_def itertools_product_eq accept_iff od)
qed

lemma filtered_product_length:
  "row \<in> set (filtered_product (column_keys steps) banned)
     \<Longrightarrow> length row = length (od_keys (ordered_steps steps))"
  by (auto simp: filtered_product_def length_column_keys dest: in_set_product_lists_length)

lemma from_dict_select_plan:
  "from_dict_select (plan_rows steps banned) (od_keys (ordered_steps steps)) =
     (if filtered_product (column_keys steps) banned = []
      then (case od_keys (ordered_steps steps) of c # _ \<Rightarrow> Inl (KeyError c)
            | [] \<Rightarrow> Inr \<lparr>columns = [], rows = []\<rparr>)
      else Inr \<lparr>columns = od_keys (ordered_steps steps),
               rows = map (map Some) (filtered_product (column_keys steps) banned)\<rparr>)"
proof (cases "filtered_product (column_keys steps) banned = []")
  case True
  then show ?thesis
    by (simp add: from_dict_select_def plan_rows_eq split: list.splits)
next
  case False
  let ?cols = "od_keys (ordered_steps steps)"
  let ?kept = "filtered_product (column_keys steps) banned"
  have cells: "map (map_of (zip ?cols row)) ?cols = map Some row" if "row \<in> set ?kept" for row
    using that by (intro map_of_zip_row) (simp_all add: filtered_product_length ordered_steps_keys_distinct)
  obtain r rs where k: "?kept = r # rs" using False by (cases ?kept) auto
  have "map_of (zip ?cols r) c \<noteq> None" if "c \<in> set ?cols" for c
  proof -
    have "map_of (zip ?cols r) c \<in> set (map (map_of (zip ?cols r)) ?cols)" using that by simp
    also have "\<dots> = set (map Some r)" using cells [of r] k by simp
    finally show ?thesis by auto
  qed
  then have "filter (\<lambda>c. list_all (\<lambda>d. map_of d c = None) (plan_rows steps banned)) ?cols = []"
    by (auto simp: plan_rows_eq k filter_empty_conv)
  moreover have "map (\<lambda>d. map (map_of d) ?cols) (plan_rows steps banned) = map (map Some) ?kept"
    by (simp add: plan_rows_eq comp_def cells cong: map_cong)
  ultimately show ?thesis using False by (simp add: from_dict_select_def)
qed

lemma empty_product_no_columns:
  "od_keys (ordered_steps steps) = [] \<Longrightarrow> filtered_product (column_keys steps) banned \<noteq> []"
proof -
  assume "od_keys (ordered_steps steps) = []"
  then have "column_keys steps = []" using length_column_keys [of steps] by simp
  moreover have "\<not> list_ex (\<lambda>b. both_names_appear b []) banned"
    by (induction banned) (simp_all add: both_names_appear_def)
  ultimately show ?thesis by (simp add: filtered_product_def)
qed

lemma length_product_lists_prod: "length (product_lists xss) = prod_list (map length xss)"
  by (induction xss) (simp_all add: length_concat comp_def sum_list_triv)

lemma length_filter_eq_iff: "length (filter P xs) = length xs \<longleftrightarrow> (\<forall>x \<in> set xs. P x)"
proof (induction xs)
  case Nil
  show ?case by simp
next
  case (Cons x xs)
  have "length (filter P xs) \<noteq> Suc (length xs)"
    using length_filter_le [of P xs] by linarith
  with Cons show ?case by auto
qed

lemma column_keys_distinct_names:
  assumes "distinct (map fst steps)" and "\<forall>step \<in> set steps. distinct (map fst (snd step))"
  shows "column_keys steps = map (\<lambda>step. map fst (snd step)) steps"
proof -
  have "OrderedDict steps = steps" using assms(1) by (rule OrderedDict_distinct_id)
  moreover have "OrderedDict (snd s) = snd s" if "s \<in> set steps" for s
    using assms(2) that by (intro OrderedDict_distinct_id) auto
  ultimately show ?thesis
    by (simp add: column_keys_def ordered_steps_def od_keys_def comp_def case_prod_beta cong: map_cong)
qed

lemma example_init:
  "Pipeliner_init example_steps example_cv example_cv example_param_grid [(''standard'', ''SVC'')]
     = Inr example_pipeliner"
  by (simp add: Pipeliner_init_def from_dict_select_def plan_rows_def ordered_steps_def OrderedDict_def
        example_steps_def od_keys_def itertools_product_def column_keys_def
        accept_from_banned_combos_def example_pipeliner_def)

lemma dup_init:
  "Pipeliner_init [(''Scaler'', [(''none'', 1)]), (''Reducer'', [(''pca'', 10)]),
                   (''Selector'', [(''none'', 100)])] example_cv example_cv [] []
     = Inr dup_pipeliner"
  by (simp add: Pipeliner_init_def from_dict_select_def plan_rows_def ordered_steps_def OrderedDict_def
        od_keys_def itertools_product_def column_keys_def accept_from_banned_combos_def
        dup_pipeliner_def)

lemma collision_init:
  "Pipeliner_init [(''Reducer'', [(''ab'', 1), (''a'', 2)]), (''Classifier'', [(''c'', 30), (''bc'', 40)])]
     example_cv example_cv [(''c'', [(''C'', [5, 6])])] []
     = Inr collision_pipeliner"
  by (simp add: Pipeliner_init_def from_dict_select_def plan_rows_def ordered_steps_def OrderedDict_def
        od_keys_def itertools_product_def column_keys_def accept_from_banned_combos_def
        collision_pipeliner_def)

text \<open>
  The plan table of a constructor that returns. For all steps and banned combos: when
  the constructor returns, the plan table has
  the step names as columns and, as rows, the Cartesian product of the steps'
  variant-name lists in product order without the rows in which both names of some
  banned combo appear; the constructor returns exactly when a row survives (with no row,
  selecting the columns raises KeyError); the rows collected by the loop are these rows
  as well; no surviving row holds both names of a banned combo; the number of rows is at
  most the product of the variant counts, and equal to it exactly when no banned combo
  matches any candidate row. The variant-name lists are the keys of the ordered
  dictionaries, which are the names as given when step names and the names within each
  step are distinct.
\<close>

lemma plan_table_filtered_product:
  "(\<forall>p. (Pipeliner_init steps grid_cv0 eval_cv0 param_grid0 banned_combos :: error + ('x, 'e, 'pv) Pipeliner) = Inr p \<longrightarrow>
       columns (plan_table p) = od_keys (ordered_steps steps)
     \<and> rows (plan_table p) = map (map Some) (filtered_product (column_keys steps) banned_combos))
 \<and> ((\<exists>p. (Pipeliner_init steps grid_cv0 eval_cv0 param_grid0 banned_combos :: error + ('x, 'e, 'pv) Pipeliner) = Inr p)
       \<longleftrightarrow> filtered_product (column_keys steps) banned_combos \<noteq> [])
 \<and> map (map snd) (plan_rows steps banned_combos) = filtered_product (column_keys steps) banned_combos
 \<and> (\<forall>row \<in> set (filtered_product (column_keys steps) banned_combos).
      \<forall>b \<in> set banned_combos. \<not> (fst b \<in> set row \<and> snd b \<in> set row))
 \<and> length (filtered_product (column_keys steps) banned_combos) \<le> prod_list (map length (column_keys steps))
 \<and> (length (filtered_product (column_keys steps) banned_combos) = prod_list (map length (column_keys steps))
      \<longleftrightarrow> (\<forall>row \<in> set (product_lists (column_keys steps)).
            \<forall>b \<in> set banned_combos. \<not> (fst b \<in> set row \<and> snd b \<in> set row)))
 \<and> (distinct (map fst steps) \<and> (\<forall>step \<in> set steps. distinct (map fst (snd step)))
      \<longrightarrow> column_keys steps = map (\<lambda>step. map fst (snd step)) steps)"
proof (intro conjI)
  let ?kept = "filtered_product (column_keys steps) banned_combos"
  let ?init = "Pipeliner_init steps grid_cv0 eval_cv0 param_grid0 banned_combos :: error + ('x, 'e, 'pv) Pipeliner"
  show "\<forall>p. ?init = Inr p \<longrightarrow>
       columns (plan_table p) = od_keys (ordered_steps steps) \<and> rows (plan_table p) = map (map Some) ?kept"
    by (auto simp: Pipeliner_init_def from_dict_select_plan split: if_splits list.splits)
  show "(\<exists>p. ?init = Inr p) \<longleftrightarrow> ?kept \<noteq> []"
    using empty_product_no_columns [of steps banned_combos]
    by (auto simp: Pipeliner_init_def from_dict_select_plan split: if_splits list.splits)
  show "map (map snd) (plan_rows steps banned_combos) = ?kept"
  proof -
    have "map snd (zip (od_keys (ordered_steps steps)) row) = row" if "row \<in> set ?kept" for row
      using filtered_product_length [OF that] by simp
    then show ?thesis by (simp add: plan_rows_eq comp_def cong: map_cong)
  qed
  show "\<forall>row \<in> set ?kept. \<forall>b \<in> set banned_combos. \<not> (fst b \<in> set row \<and> snd b \<in> set row)"
    by (auto simp: filtered_product_def list_ex_iff both_names_appear_def)
  show "length ?kept \<le> prod_list (map length (column_keys steps))"
    unfolding filtered_product_def length_product_lists_prod [symmetric] by (rule length_filter_le)
  show "length ?kept = prod_list (map length (column_keys steps))
      \<longleftrightarrow> (\<forall>row \<in> set (product_lists (column_keys steps)).
            \<forall>b \<in> set banned_combos. \<not> (fst b \<in> set row \<and> snd b \<in> set row))"
    unfolding filtered_product_def length_product_lists_prod [symmetric]
    by (simp add: length_filter_eq_iff list_ex_iff both_names_appear_def)
  show "distinct (map fst steps) \<and> (\<forall>step \<in> set steps. distinct (map fst (snd step)))
      \<longrightarrow> column_keys steps = map (\<lambda>step. map fst (snd step)) steps"
  proof (intro impI, elim conjE)
    assume "distinct (map fst steps)" and "\<forall>step \<in> set steps. distinct (map fst (snd step))"
    then show "column_keys steps = map (\<lambda>step. map fst (snd step)) steps"
      by (rule column_keys_distinct_names)
  qed
qed

lemma plan_table_filtered_product_example:
  "(Pipeliner_init example_steps example_cv example_cv example_param_grid [(''standard'', ''SVC'')]
      :: error + (nat, nat, nat) Pipeliner) = Inr example_pipeliner
 \<and> rows (plan_table example_pipeliner)
     = map (map Some) (filtered_product (column_keys example_steps) [(''standard'', ''SVC'')])
 \<and> filtered_product (column_keys example_steps) [(''standard'', ''SVC'')]
     = [[''minmax'', ''LR''], [''minmax'', ''SVC''], [''standard'', ''LR'']]
 \<and> distinct (map fst example_steps) \<and> list_all (\<lambda>step. distinct (map fst (snd step))) example_steps
 \<and> column_keys example_steps = [[''minmax'', ''standard''], [''LR'', ''SVC'']]
 \<and> length (filtered_product (column_keys example_steps) [(''standard'', ''SVC'')]) < prod_list (map length (column_keys example_steps))"
proof -
  have d: "distinct (map fst example_steps) \<and> list_all (\<lambda>step. distinct (map fst (snd step))) example_steps"
    by (simp add: example_steps_def)
  have ck: "column_keys example_steps = [[''minmax'', ''standard''], [''LR'', ''SVC'']]"
    by (simp add: column_keys_def ordered_steps_def OrderedDict_def example_steps_def od_keys_def)
  have fp: "filtered_product (column_keys example_steps) [(''standard'', ''SVC'')]
     = [[''minmax'', ''LR''], [''minmax'', ''SVC''], [''standard'', ''LR'']]"
    by (simp add: ck filtered_product_def both_names_appear_def)
  have len: "length (filtered_product (column_keys example_steps) [(''standard'', ''SVC'')])
               < prod_list (map length (column_keys example_steps))"
    unfolding fp unfolding ck by simp
  from plan_table_filtered_product
         [of example_steps example_cv example_cv example_param_grid "[(''standard'', ''SVC'')]",
          where ?'x = nat]
       example_init
  have r: "rows (plan_table example_pipeliner)
     = map (map Some) (filtered_product (column_keys example_steps) [(''standard'', ''SVC'')])"
    by blast
  show ?thesis
    by (intro conjI example_init r fp ck len conjunct1 [OF d] conjunct2 [OF d])
qed

text \<open>
  C5. The claim is for every steps list and every list of banned combos, and gives the
  filtered product as the plan table; with no surviving row that is a table without rows.
  The constructor builds no table there: with the steps Scaler (\<^verbatim>\<open>minmax\<close>) and
  Classifier (\<^verbatim>\<open>SVC\<close>) and the banned combo (\<^verbatim>\<open>minmax\<close>, \<^verbatim>\<open>SVC\<close>) the filtered product is
  empty and the constructor raises KeyError, at the selection of the columns from the
  frame made of no rows. The same happens for a step without variants.
\<close>

theorem no_surviving_row_raises_KeyError:
  "filtered_product (column_keys [(''Scaler'', [(''minmax'', 10 :: nat)]), (''Classifier'', [(''SVC'', 2)])])
     [(''minmax'', ''SVC'')] = []
 \<and> (\<exists>label. (Pipeliner_init [(''Scaler'', [(''minmax'', 10)]), (''Classifier'', [(''SVC'', 2)])]
                 example_cv example_cv [] [(''minmax'', ''SVC'')]
                 :: error + (nat, nat, nat) Pipeliner) = Inl (KeyError label))
 \<and> filtered_product (column_keys [(''Scaler'', [] :: (string \<times> nat) list), (''Classifier'', [(''SVC'', 2)])]) []
     = []
 \<and> (\<exists>label. (Pipeliner_init [(''Scaler'', []), (''Classifier'', [(''SVC'', 2)])]
                 example_cv example_cv [] []
                 :: error + (nat, nat, nat) Pipeliner) = Inl (KeyError label))"
  by (simp add: Pipeliner_init_def from_dict_select_def plan_rows_def ordered_steps_def OrderedDict_def
        od_keys_def itertools_product_def column_keys_def accept_from_banned_combos_def
        filtered_product_def both_names_appear_def)

subsection \<open>The transform cache\<close>

lemma od_keys_setitem: "set (od_keys (od_setitem d k v)) = insert k (set (od_keys d))"
  by (induction d k v rule: od_setitem.induct) (auto simp: od_keys_def)

lemma transform_loop_keeps_key:
  "k \<in> set (od_keys (cached_X p)) \<Longrightarrow> k \<in> set (od_keys (cached_X (snd (transform_loop lib prev zs p))))"
proof (induction zs arbitrary: prev p)
  case Nil
  then show ?case by simp
next
  case (Cons z zs)
  obtain row_key column where z: "z = (row_key, column)" by (cases z)
  show ?case
    using Cons.prems
    by (auto simp: z od_keys_setitem split: sum.splits intro!: Cons.IH)
qed

lemma transform_X_from_last_cached_keeps_key:
  "k \<in> set (od_keys (cached_X p))
     \<Longrightarrow> k \<in> set (od_keys (cached_X (snd (transform_X_from_last_cached lib row_keys cols p))))"
  using transform_loop_keeps_key [of k p]
  by (auto simp: transform_X_from_last_cached_def split: list.splits)

lemma remove_unmatched_core_globals:
  "remove_unmatched_caching_X core_globals row_keys p = (Inl (NameError ''cp''), p)"
  by (simp add: remove_unmatched_caching_X_def core_globals_def)

lemma transform_with_caching_init_cached:
  "''init'' \<in> set (od_keys (cached_X p))
     \<Longrightarrow> transform_with_caching lib X y row_keys p = (Inl (NameError ''cp''), p)"
  by (simp add: transform_with_caching_def transform_with_caching_under_def
        remove_unmatched_core_globals)

lemma transform_with_caching_success_init:
  assumes "transform_with_caching lib X y row_keys p = (Inr r, p1)"
  shows "''init'' \<in> set (od_keys (cached_X p1))"
proof (cases "''init'' \<in> set (od_keys (cached_X p))")
  case True
  with assms show ?thesis
    by (simp add: transform_with_caching_init_cached)
next
  case False
  let ?q = "p\<lparr>cached_X := od_setitem (cached_X p) ''init'' X\<rparr>"
  let ?t = "transform_X_from_last_cached lib row_keys (take (length row_keys) (columns (plan_table p))) ?q"
  have k: "''init'' \<in> set (od_keys (cached_X (snd ?t)))"
    by (rule transform_X_from_last_cached_keeps_key) (simp add: od_keys_setitem)
  from assms False have "p1 = snd ?t"
    by (auto simp: transform_with_caching_def transform_with_caching_under_def Let_def
          split: prod.splits sum.splits list.splits)
  with k show ?thesis by simp
qed

lemma example_first_call:
  "transform_with_caching example_lib 100 7 [''minmax''] example_pipeliner
     = (Inr (110, 7), example_after_first)"
  by (simp add: transform_with_caching_def transform_with_caching_under_def example_pipeliner_def
        example_after_first_def od_keys_def transform_X_from_last_cached_def od_getitem_def
        example_steps_def example_lib_def)

text \<open>
  C1. The claim describes what every call after the first does to the cache. In the
  module as written it does none of it: once a call has returned, every later call, with
  any data and any row keys, raises NameError for the name \<^verbatim>\<open>cp\<close> at the first statement
  of \<^verbatim>\<open>remove_unmatched_caching_X\<close> and leaves the Pipeliner as it was.
\<close>

theorem later_call_raises_NameError:
  assumes "transform_with_caching lib X y row_keys p = (Inr r, p1)"
  shows "transform_with_caching lib X' y' row_keys' p1 = (Inl (NameError ''cp''), p1)"
  using transform_with_caching_success_init [OF assms]
  by (rule transform_with_caching_init_cached)

theorem later_call_raises_NameError_witness:
  "transform_with_caching example_lib 100 7 [''minmax''] example_pipeliner
     = (Inr (110, 7), example_after_first)
 \<and> transform_with_caching example_lib 100 7 [''minmax''] example_after_first
     = (Inl (NameError ''cp''), example_after_first)"
  using later_call_raises_NameError [OF example_first_call, of 100 7 "[''minmax'']"] example_first_call
  by simp

text \<open>
  C2. Two consecutive rows with the cacheable names \<^verbatim>\<open>minmax\<close> and then \<^verbatim>\<open>standard\<close> share a
  prefix of length 0, so the claim has \<^verbatim>\<open>standard\<close> invoked for the second row. The second
  call raises NameError and the only call of \<^verbatim>\<open>fit_transform\<close> over both rows is the one
  of \<^verbatim>\<open>minmax\<close>.
\<close>

theorem second_row_not_transformed:
  "fst (transform_with_caching example_lib 100 7 [''standard'']
          (snd (transform_with_caching example_lib 100 7 [''minmax''] example_pipeliner)))
     = Inl (NameError ''cp'')
 \<and> fit_transform_calls
       (snd (transform_with_caching example_lib 100 7 [''standard'']
          (snd (transform_with_caching example_lib 100 7 [''minmax''] example_pipeliner))))
     = [(''Scaler'', ''minmax'')]
 \<and> count_list
       (fit_transform_calls
          (snd (transform_with_caching example_lib 100 7 [''standard'']
             (snd (transform_with_caching example_lib 100 7 [''minmax''] example_pipeliner)))))
       (''Scaler'', ''standard'') = 0"
proof -
  have "''init'' \<in> set (od_keys (cached_X example_after_first))"
    by (simp add: example_after_first_def od_keys_def)
  then have "transform_with_caching example_lib 100 7 [''standard''] example_after_first
               = (Inl (NameError ''cp''), example_after_first)"
    by (rule transform_with_caching_init_cached)
  then show ?thesis
    by (simp add: example_first_call) (simp add: example_after_first_def)
qed

lemma transform_loop_chain:
  assumes "cached_X p \<noteq> []" and "distinct (od_keys (cached_X p))"
    and "prev_key = fst (last (cached_X p))"
    and "distinct (map fst zs)" and "set (map fst zs) \<inter> set (od_keys (cached_X p)) = {}"
  shows "case recompute_from_scratch lib (named_steps p) zs (snd (last (cached_X p))) of
           Inl e \<Rightarrow> fst (transform_loop lib prev_key zs p) = Inl e
         | Inr d \<Rightarrow> (\<exists>p1. transform_loop lib prev_key zs p = (Inr (), p1)
                       \<and> cached_X p1 \<noteq> [] \<and> distinct (od_keys (cached_X p1))
                       \<and> snd (last (cached_X p1)) = d)"
  using assms
proof (induction zs arbitrary: prev_key p)
  case Nil
  then show ?case by simp
next
  case (Cons z zs)
  obtain row_key column where z: "z = (row_key, column)" by (cases z)
  have prev: "od_getitem (cached_X p) prev_key = Inr (snd (last (cached_X p)))"
    using Cons.prems(1-3) by (simp add: od_getitem_def map_of_last_key)
  show ?case
  proof (cases "od_getitem (named_steps p) column")
    case (Inl e)
    then show ?thesis by (simp add: z)
  next
    case (Inr variants)
    note v = this
    show ?thesis
    proof (cases "od_getitem variants row_key")
      case (Inl e)
      then show ?thesis by (simp add: z v)
    next
      case (Inr transformer)
      let ?X = "snd (last (cached_X p))"
      let ?p = "p\<lparr>cached_X := od_setitem (cached_X p) row_key (fit_transform lib transformer ?X),
                   fit_transform_calls := fit_transform_calls p @ [(column, row_key)]\<rparr>"
      have fresh: "row_key \<notin> set (od_keys (cached_X p))"
        using Cons.prems(5) by (auto simp: z)
      have c: "cached_X ?p = cached_X p @ [(row_key, fit_transform lib transformer ?X)]"
        by (simp add: od_setitem_fresh [OF fresh])
      have ih: "case recompute_from_scratch lib (named_steps ?p) zs (snd (last (cached_X ?p))) of
           Inl e \<Rightarrow> fst (transform_loop lib row_key zs ?p) = Inl e
         | Inr d \<Rightarrow> (\<exists>p1. transform_loop lib row_key zs ?p = (Inr (), p1)
                       \<and> cached_X p1 \<noteq> [] \<and> distinct (od_keys (cached_X p1))
                       \<and> snd (last (cached_X p1)) = d)"
      proof (rule Cons.IH)
        show "cached_X ?p \<noteq> []" by (simp add: c)
        show "distinct (od_keys (cached_X ?p))"
          using Cons.prems(2) fresh by (simp add: c od_keys_def)
        show "row_key = fst (last (cached_X ?p))" by (simp add: c)
        show "distinct (map fst zs)" using Cons.prems(4) by simp
        show "set (map fst zs) \<inter> set (od_keys (cached_X ?p)) = {}"
          using Cons.prems(4,5) by (auto simp: c z od_keys_def)
      qed
      have step: "transform_loop lib prev_key (z # zs) p = transform_loop lib row_key zs ?p"
        by (simp add: z v Inr prev)
      have rec: "recompute_from_scratch lib (named_steps p) (z # zs) ?X
                  = recompute_from_scratch lib (named_steps ?p) zs (snd (last (cached_X ?p)))"
        by (simp add: z v Inr c)
      show ?thesis unfolding step rec by (rule ih)
    qed
  qed
qed

text \<open>
  C3. The claim has the data of every row, after any rows processed before it, equal to
  the row's cacheable prefix recomputed from scratch. After the first row
  (\<^verbatim>\<open>minmax\<close>, served from scratch: 110) no row is served at all: the same row again, which
  the cache holds, and the row \<^verbatim>\<open>standard\<close> both raise NameError for the name \<^verbatim>\<open>cp\<close>, where
  recomputing from scratch gives 110 and 120. The Pipeliner is left as it was.
\<close>

theorem later_row_not_from_scratch:
  "transform_with_caching example_lib 100 7 [''minmax''] example_pipeliner
     = (Inr (110, 7), example_after_first)
 \<and> recompute_from_scratch example_lib (named_steps example_after_first)
       (zip [''minmax''] (take (length [''minmax'']) (columns (plan_table example_after_first)))) 100
     = Inr 110
 \<and> transform_with_caching example_lib 100 7 [''minmax''] example_after_first
     = (Inl (NameError ''cp''), example_after_first)
 \<and> recompute_from_scratch example_lib (named_steps example_after_first)
       (zip [''standard''] (take (length [''standard'']) (columns (plan_table example_after_first)))) 100
     = Inr 120
 \<and> transform_with_caching example_lib 100 7 [''standard''] example_after_first
     = (Inl (NameError ''cp''), example_after_first)"
proof -
  have i: "''init'' \<in> set (od_keys (cached_X example_after_first))"
    by (simp add: example_after_first_def od_keys_def)
  have s1: "recompute_from_scratch example_lib (named_steps example_after_first)
       (zip [''minmax''] (take (length [''minmax'']) (columns (plan_table example_after_first)))) 100
     = Inr 110"
    by (simp add: example_after_first_def example_pipeliner_def example_steps_def od_getitem_def
          example_lib_def)
  have s2: "recompute_from_scratch example_lib (named_steps example_after_first)
       (zip [''standard''] (take (length [''standard'']) (columns (plan_table example_after_first)))) 100
     = Inr 120"
    by (simp add: example_after_first_def example_pipeliner_def example_steps_def od_getitem_def
          example_lib_def)
  show ?thesis
    by (intro conjI example_first_call s1 s2 transform_with_caching_init_cached [OF i])
qed

text \<open>
  The cache is keyed by the bare variant name. On a first call with the row keys
  \<^verbatim>\<open>none\<close>, \<^verbatim>\<open>pca\<close>, \<^verbatim>\<open>none\<close> the third result overwrites the entry of the first, and the
  data returned is that of the entry \<^verbatim>\<open>pca\<close> (11), not the output of the three
  transformers (111).
\<close>

lemma duplicate_name_not_from_scratch:
  "recompute_from_scratch example_lib (named_steps dup_pipeliner)
      (zip [''none'', ''pca'', ''none''] (columns (plan_table dup_pipeliner))) 0 = Inr 111
   \<and> fst (transform_with_caching example_lib 0 7 [''none'', ''pca'', ''none''] dup_pipeliner) = Inr (11, 7)"
  by (simp add: transform_with_caching_def transform_with_caching_under_def dup_pipeliner_def
      od_keys_def transform_X_from_last_cached_def od_getitem_def example_lib_def)

text \<open>
  A first call with distinct names. On a Pipeliner whose cache is empty, for row keys
  that are pairwise
  distinct and different from \<^verbatim>\<open>init\<close>, the outcome of \<^verbatim>\<open>transform_with_caching\<close> is that of
  recomputing the row's prefix from scratch on the input: the same data, with \<open>y\<close>
  unchanged, or the same KeyError of a name that is no step or variant.
\<close>

lemma first_call_equals_from_scratch:
  assumes "cached_X p = []" and "distinct row_keys" and "''init'' \<notin> set row_keys"
  shows "fst (transform_with_caching lib X y row_keys p) =
           (case recompute_from_scratch lib (named_steps p)
                   (zip row_keys (take (length row_keys) (columns (plan_table p)))) X of
              Inl e \<Rightarrow> Inl e
            | Inr d \<Rightarrow> Inr (d, y))"
proof -
  let ?cols = "take (length row_keys) (columns (plan_table p))"
  let ?zs = "zip row_keys ?cols"
  let ?q = "p\<lparr>cached_X := od_setitem (cached_X p) ''init'' X\<rparr>"
  have cq: "cached_X ?q = [(''init'', X)]" using assms(1) by simp
  have chain: "case recompute_from_scratch lib (named_steps ?q) ?zs (snd (last (cached_X ?q))) of
           Inl e \<Rightarrow> fst (transform_loop lib ''init'' ?zs ?q) = Inl e
         | Inr d \<Rightarrow> (\<exists>p1. transform_loop lib ''init'' ?zs ?q = (Inr (), p1)
                       \<and> cached_X p1 \<noteq> [] \<and> distinct (od_keys (cached_X p1))
                       \<and> snd (last (cached_X p1)) = d)"
  proof (rule transform_loop_chain)
    show "cached_X ?q \<noteq> []" by (simp add: cq)
    show "distinct (od_keys (cached_X ?q))" by (simp add: cq od_keys_def)
    show "''init'' = fst (last (cached_X ?q))" by (simp add: cq)
    show "distinct (map fst ?zs)"
      using assms(2) by (simp add: map_fst_zip_take distinct_take)
    show "set (map fst ?zs) \<inter> set (od_keys (cached_X ?q)) = {}"
      using assms(3) by (auto simp: cq od_keys_def dest: set_zip_leftD)
  qed
  have tx: "transform_X_from_last_cached lib row_keys ?cols ?q = transform_loop lib ''init'' ?zs ?q"
    by (simp add: transform_X_from_last_cached_def cq od_keys_def)
  have twc: "transform_with_caching lib X y row_keys p =
      (case transform_loop lib ''init'' ?zs ?q of
        (Inl e, p2) \<Rightarrow> (Inl e, p2)
      | (Inr u, p2) \<Rightarrow>
          (case od_keys (cached_X p2) of
             [] \<Rightarrow> (Inl IndexError, p2)
           | k # ks \<Rightarrow>
               (case od_getitem (cached_X p2) (last (k # ks)) of
                  Inl e \<Rightarrow> (Inl e, p2)
                | Inr X_last \<Rightarrow> (Inr (X_last, y), p2))))"
    using assms(1) tx
    by (simp add: transform_with_caching_def transform_with_caching_under_def od_keys_def)
  show ?thesis
  proof (cases "recompute_from_scratch lib (named_steps p) ?zs X")
    case (Inl e)
    with chain have "fst (transform_loop lib ''init'' ?zs ?q) = Inl e" by (simp add: cq)
    then obtain p2 where "transform_loop lib ''init'' ?zs ?q = (Inl e, p2)"
      by (cases "transform_loop lib ''init'' ?zs ?q") auto
    then show ?thesis by (simp add: twc Inl)
  next
    case (Inr d)
    with chain obtain p1 where
      l: "transform_loop lib ''init'' ?zs ?q = (Inr (), p1)" and
      ne: "cached_X p1 \<noteq> []" and di: "distinct (od_keys (cached_X p1))" and
      d: "snd (last (cached_X p1)) = d"
      by (auto simp: cq)
    obtain k ks where ks: "od_keys (cached_X p1) = k # ks"
      using ne by (cases "cached_X p1") (auto simp: od_keys_def)
    have "last (od_keys (cached_X p1)) = fst (last (cached_X p1))"
      using ne by (simp add: od_keys_def last_map)
    then have "od_getitem (cached_X p1) (last (k # ks)) = Inr d"
      using map_of_last_key [OF ne di] d by (simp add: od_getitem_def ks [symmetric])
    then show ?thesis by (simp add: twc l ks Inr)
  qed
qed

lemma first_call_equals_from_scratch_example:
  "cached_X example_pipeliner = [] \<and> distinct [''minmax''] \<and> ''init'' \<notin> set [''minmax'']
 \<and> recompute_from_scratch example_lib (named_steps example_pipeliner)
       (zip [''minmax''] (take (length [''minmax'']) (columns (plan_table example_pipeliner)))) 100
     = Inr 110
 \<and> fst (transform_with_caching example_lib 100 7 [''minmax''] example_pipeliner) = Inr (110, 7)"
proof -
  have 1: "cached_X example_pipeliner = []" by (simp add: example_pipeliner_def)
  have 2: "distinct [''minmax'']" by simp
  have 3: "''init'' \<notin> set [''minmax'']" by simp
  have 4: "recompute_from_scratch example_lib (named_steps example_pipeliner)
       (zip [''minmax''] (take (length [''minmax'']) (columns (plan_table example_pipeliner)))) 100
     = Inr 110"
    by (simp add: example_pipeliner_def example_steps_def od_getitem_def example_lib_def)
  show ?thesis
    using first_call_equals_from_scratch [OF 1 2 3, of example_lib 100 7] 1 4 by simp
qed

text \<open>
  What the code after line 289 attempts. Were \<^verbatim>\<open>cp\<close> bound to the module \<^verbatim>\<open>copy\<close>,
  \<^verbatim>\<open>remove_unmatched_caching_X\<close> would keep exactly the entries of the longest common prefix
  of the row keys and the cached keys; a row with the cached keys would be served without
  a call of \<^verbatim>\<open>fit_transform\<close>, and a row with another key would evict and recompute.
\<close>

lemma unmatched_loop_common_prefix:
  "distinct cached_keys \<Longrightarrow>
   unmatched_loop (zip row_keys cached_keys) cached_keys
     = Inr (drop (length (takeWhile (\<lambda>(row_key, cached_key). row_key = cached_key)
                             (zip row_keys cached_keys))) cached_keys)"
proof (induction row_keys cached_keys rule: list_induct2')
  case (4 r rs c cs)
  then show ?case by auto
qed simp_all

lemma foldl_delitem: "foldl od_delitem d ks = filter (\<lambda>kv. fst kv \<notin> set ks) d"
  by (induction ks arbitrary: d) (auto simp: od_delitem_def intro: filter_cong)

lemma filter_drop_keys:
  "distinct (map fst d) \<Longrightarrow> filter (\<lambda>kv. fst kv \<notin> set (drop n (map fst d))) d = take n d"
proof (induction d arbitrary: n)
  case Nil
  then show ?case by simp
next
  case (Cons a d)
  show ?case
  proof (cases n)
    case 0
    then show ?thesis by (auto simp: filter_empty_conv)
  next
    case (Suc m)
    have "fst a \<notin> set (drop m (map fst d))"
      using Cons.prems by (auto dest: in_set_dropD)
    then show ?thesis using Cons by (simp add: Suc)
  qed
qed

lemma remove_unmatched_keeps_common_prefix:
  assumes "distinct (od_keys (cached_X p))"
  shows "remove_unmatched_caching_X repaired_globals row_keys p
           = (Inr (), p\<lparr>cached_X :=
                take (length (takeWhile (\<lambda>(row_key, cached_key). row_key = cached_key)
                                (zip row_keys (od_keys (cached_X p))))) (cached_X p)\<rparr>)"
proof -
  have d: "distinct (map fst (cached_X p))" using assms by (simp add: od_keys_def)
  show ?thesis
    using unmatched_loop_common_prefix [OF assms, of row_keys]
    by (simp add: remove_unmatched_caching_X_def repaired_globals_def copy_module_def Let_def
          foldl_delitem od_keys_def filter_drop_keys [OF d])
qed

lemma repaired_same_row:
  "transform_with_caching_under repaired_globals example_lib 100 7 [''minmax''] example_after_first
     = (Inr (110, 7), example_after_first)"
  by (simp add: transform_with_caching_under_def example_pipeliner_def example_after_first_def
        od_keys_def remove_unmatched_caching_X_def repaired_globals_def copy_module_def od_delitem_def
        transform_X_from_last_cached_def od_getitem_def example_steps_def example_lib_def)

lemma repaired_other_row:
  "transform_with_caching_under repaired_globals example_lib 100 7 [''standard''] example_after_first
     = (Inr (120, 7),
        example_pipeliner\<lparr>cached_X := [(''init'', 100), (''standard'', 120)],
                          fit_transform_calls := [(''Scaler'', ''minmax''), (''Scaler'', ''standard'')]\<rparr>)"
  by (simp add: transform_with_caching_under_def example_pipeliner_def example_after_first_def
        od_keys_def remove_unmatched_caching_X_def repaired_globals_def copy_module_def od_delitem_def
        transform_X_from_last_cached_def od_getitem_def example_steps_def example_lib_def)

subsection \<open>Grid search\<close>

lemma grid_keys_distinct:
  "grid_mean_key m \<noteq> grid_std_key m"
  "grid_mean_key m \<noteq> grid_best_params_key m"
  "grid_std_key m \<noteq> grid_best_params_key m"
  by (simp_all add: grid_mean_key_def grid_std_key_def grid_best_params_key_def)

lemma grid_search_no_grid:
  assumes "row_keys \<noteq> []" and "map_of (param_grid p) (last row_keys) = None"
  shows "get_grid_search_results lib X y row_keys scoring p =
           (Inr [(grid_mean_key scoring, Str ''NaN''), (grid_std_key scoring, Str ''NaN''),
                 (grid_best_params_key scoring, Str ''NaN'')],
            p\<lparr>best_params := (best_params p)(param_key row_keys scoring \<mapsto> [])\<rparr>)"
proof -
  obtain k ks where rk: "row_keys = k # ks"
    using assms(1) by (cases row_keys) auto
  show ?thesis
    using assms(2) grid_keys_distinct [of scoring]
    by (simp add: get_grid_search_results_def rk Let_def del: last.simps)
qed

lemma grid_search_stores:
  assumes "get_grid_search_results lib X y row_keys scoring p = (Inr res, p1)"
  shows "\<exists>params. p1 = p\<lparr>best_params := (best_params p)(param_key row_keys scoring \<mapsto> params)\<rparr>"
  using assms
  by (auto simp: get_grid_search_results_def Let_def split: list.splits option.splits sum.splits)

lemma prepare_steps_reads:
  assumes "prepare_steps lib row_keys scoring p = (Inr steps, q)"
  shows "\<exists>steps0 params.
           build_steps (named_steps p) (zip row_keys (last_n (length row_keys) (columns (plan_table p)))) = Inr steps0
         \<and> best_params p (param_key row_keys scoring) = Some params
         \<and> set_params lib (snd (last steps0)) params = Inr (snd (last steps))"
  using assms
  by (auto simp: prepare_steps_def Let_def split: list.splits option.splits sum.splits)

text \<open>
  C6. When the last row key has no entry in \<^verbatim>\<open>param_grid\<close>, \<^verbatim>\<open>get_grid_search_results\<close>
  returns a dictionary with exactly the three keys grid_<metric>_mean, grid_<metric>_std
  and grid_<metric>_best_params, each mapped to the string 'NaN' and none to a number, and
  the only change to the Pipeliner is that the empty parameter assignment is stored in
  \<^verbatim>\<open>best_params\<close> under the key of (row keys, metric).
\<close>

theorem grid_search_sentinel:
  assumes "row_keys \<noteq> []" and "map_of (param_grid p) (last row_keys) = None"
  shows "\<exists>results p1.
           get_grid_search_results lib X y row_keys scoring p = (Inr results, p1)
         \<and> od_keys results = [grid_mean_key scoring, grid_std_key scoring, grid_best_params_key scoring]
         \<and> map_of results (grid_mean_key scoring) = Some (Str ''NaN'')
         \<and> map_of results (grid_std_key scoring) = Some (Str ''NaN'')
         \<and> map_of results (grid_best_params_key scoring) = Some (Str ''NaN'')
         \<and> (\<forall>key number. map_of results key \<noteq> Some (Num number))
         \<and> best_params p1 (param_key row_keys scoring) = Some []
         \<and> p1 = p\<lparr>best_params := (best_params p)(param_key row_keys scoring \<mapsto> [])\<rparr>"
  using grid_keys_distinct [of scoring]
  by (simp add: grid_search_no_grid [OF assms] od_keys_def)

theorem grid_search_sentinel_witness:
  "[''SVC''] \<noteq> [] \<and> map_of (param_grid example_pipeliner) (last [''SVC'']) = None
 \<and> get_grid_search_results example_lib 110 7 [''SVC''] ''accuracy'' example_pipeliner
     = (Inr [(''grid_accuracy_mean'', Str ''NaN''), (''grid_accuracy_std'', Str ''NaN''),
             (''grid_accuracy_best_params'', Str ''NaN'')],
        example_pipeliner\<lparr>best_params := [''SVCaccuracy'' \<mapsto> []]\<rparr>)"
proof -
  have 1: "[''SVC''] \<noteq> []" by simp
  have 2: "map_of (param_grid example_pipeliner) (last [''SVC'']) = None"
    by (simp add: example_pipeliner_def example_param_grid_def)
  from grid_search_sentinel [OF 1 2, of example_lib 110 7 "''accuracy''"] obtain results p1 where
    g: "get_grid_search_results example_lib 110 7 [''SVC''] ''accuracy'' example_pipeliner = (Inr results, p1)"
    and k: "od_keys results = [grid_mean_key ''accuracy'', grid_std_key ''accuracy'', grid_best_params_key ''accuracy'']"
    and m: "map_of results (grid_mean_key ''accuracy'') = Some (Str ''NaN'')"
           "map_of results (grid_std_key ''accuracy'') = Some (Str ''NaN'')"
           "map_of results (grid_best_params_key ''accuracy'') = Some (Str ''NaN'')"
    and p1: "p1 = example_pipeliner\<lparr>best_params := (best_params example_pipeliner)(param_key [''SVC''] ''accuracy'' \<mapsto> [])\<rparr>"
    by blast
  obtain a b c where r: "results = [(grid_mean_key ''accuracy'', a), (grid_std_key ''accuracy'', b),
                                    (grid_best_params_key ''accuracy'', c)]"
    using k by (auto simp: od_keys_def)
  have "a = Str ''NaN''" "b = Str ''NaN''" "c = Str ''NaN''"
    using m grid_keys_distinct [of "''accuracy''"] by (auto simp: r)
  then have "results = [(''grid_accuracy_mean'', Str ''NaN''), (''grid_accuracy_std'', Str ''NaN''),
             (''grid_accuracy_best_params'', Str ''NaN'')]"
    by (simp add: r grid_mean_key_def grid_std_key_def grid_best_params_key_def)
  moreover have "p1 = example_pipeliner\<lparr>best_params := [''SVCaccuracy'' \<mapsto> []]\<rparr>"
    by (simp add: p1 param_key_def example_pipeliner_def)
  ultimately show ?thesis using 1 2 g by simp
qed

text \<open>
  C9. The key of \<^verbatim>\<open>best_params\<close> is the concatenation of the row keys followed by the
  metric name. The two distinct suffixes (ab, c) and (a, bc) have the same key for every
  metric. So, whenever a grid search for (ab, c) returns, the parameters it stored are
  the entry under the key of (a, bc); a call of \<^verbatim>\<open>get_scores\<close> for (a, bc) that returns has
  set exactly these parameters on its last object; and a later grid search for (a, bc)
  replaces the entry stored for (ab, c).
\<close>

theorem param_key_collision:
  "param_key row_keys scoring = concat row_keys @ scoring
 \<and> [''ab'', ''c''] \<noteq> [''a'', ''bc'']
 \<and> param_key [''ab'', ''c''] scoring = param_key [''a'', ''bc''] scoring
 \<and> (\<forall>res p1. get_grid_search_results lib X y [''ab'', ''c''] scoring p = (Inr res, p1) \<longrightarrow>
      (\<exists>params.
          p1 = p\<lparr>best_params := (best_params p)(param_key [''ab'', ''c''] scoring \<mapsto> params)\<rparr>
        \<and> best_params p1 (param_key [''a'', ''bc''] scoring) = Some params
        \<and> (\<forall>X1 y1 collect_n scores q.
              get_scores lib X1 y1 [''a'', ''bc''] scoring collect_n p1 = (Inr scores, q) \<longrightarrow>
              (\<exists>steps0 steps q1.
                  build_steps (named_steps p1)
                    (zip [''a'', ''bc''] (last_n 2 (columns (plan_table p1)))) = Inr steps0
                \<and> prepare_steps lib [''a'', ''bc''] scoring p1 = (Inr steps, q1)
                \<and> set_params lib (snd (last steps0)) params = Inr (snd (last steps))))
        \<and> (\<forall>X2 y2 res2 p2.
              get_grid_search_results lib X2 y2 [''a'', ''bc''] scoring p1 = (Inr res2, p2) \<longrightarrow>
              (\<exists>params2. p2 = p\<lparr>best_params := (best_params p)(param_key [''ab'', ''c''] scoring \<mapsto> params2)\<rparr>))))"
proof (intro conjI allI impI)
  show "param_key row_keys scoring = concat row_keys @ scoring" by (simp add: param_key_def)
  show "[''ab'', ''c''] \<noteq> [''a'', ''bc'']" by simp
  show k: "param_key [''ab'', ''c''] scoring = param_key [''a'', ''bc''] scoring"
    by (simp add: param_key_def)
  fix res p1
  assume g: "get_grid_search_results lib X y [''ab'', ''c''] scoring p = (Inr res, p1)"
  from grid_search_stores [OF g] obtain params where
    p1: "p1 = p\<lparr>best_params := (best_params p)(param_key [''ab'', ''c''] scoring \<mapsto> params)\<rparr>" ..
  have rd: "best_params p1 (param_key [''a'', ''bc''] scoring) = Some params"
    by (simp add: p1 k)
  have sc: "\<exists>steps0 steps q1.
                  build_steps (named_steps p1)
                    (zip [''a'', ''bc''] (last_n 2 (columns (plan_table p1)))) = Inr steps0
                \<and> prepare_steps lib [''a'', ''bc''] scoring p1 = (Inr steps, q1)
                \<and> set_params lib (snd (last steps0)) params = Inr (snd (last steps))"
    if "get_scores lib X1 y1 [''a'', ''bc''] scoring collect_n p1 = (Inr scores, q)"
    for X1 y1 collect_n scores q
  proof -
    from that obtain steps q1 where ps: "prepare_steps lib [''a'', ''bc''] scoring p1 = (Inr steps, q1)"
      by (auto simp: get_scores_def split: prod.splits sum.splits)
    from prepare_steps_reads [OF ps] rd ps show ?thesis by (auto simp: numeral_2_eq_2)
  qed
  have ov: "\<exists>params2. p2 = p\<lparr>best_params := (best_params p)(param_key [''ab'', ''c''] scoring \<mapsto> params2)\<rparr>"
    if "get_grid_search_results lib X2 y2 [''a'', ''bc''] scoring p1 = (Inr res2, p2)" for X2 y2 res2 p2
  proof -
    from grid_search_stores [OF that] obtain params2 where
      "p2 = p1\<lparr>best_params := (best_params p1)(param_key [''a'', ''bc''] scoring \<mapsto> params2)\<rparr>" ..
    then have "p2 = p\<lparr>best_params := (best_params p)(param_key [''ab'', ''c''] scoring \<mapsto> params2)\<rparr>"
      by (simp add: p1 k)
    then show ?thesis ..
  qed
  show "\<exists>params.
          p1 = p\<lparr>best_params := (best_params p)(param_key [''ab'', ''c''] scoring \<mapsto> params)\<rparr>
        \<and> best_params p1 (param_key [''a'', ''bc''] scoring) = Some params
        \<and> (\<forall>X1 y1 collect_n scores q.
              get_scores lib X1 y1 [''a'', ''bc''] scoring collect_n p1 = (Inr scores, q) \<longrightarrow>
              (\<exists>steps0 steps q1.
                  build_steps (named_steps p1)
                    (zip [''a'', ''bc''] (last_n 2 (columns (plan_table p1)))) = Inr steps0
                \<and> prepare_steps lib [''a'', ''bc''] scoring p1 = (Inr steps, q1)
                \<and> set_params lib (snd (last steps0)) params = Inr (snd (last steps))))
        \<and> (\<forall>X2 y2 res2 p2.
              get_grid_search_results lib X2 y2 [''a'', ''bc''] scoring p1 = (Inr res2, p2) \<longrightarrow>
              (\<exists>params2. p2 = p\<lparr>best_params := (best_params p)(param_key [''ab'', ''c''] scoring \<mapsto> params2)\<rparr>))"
    using p1 rd sc ov by blast
qed

lemma collision_grid_search:
  "get_grid_search_results example_lib 0 7 [''ab'', ''c''] ''acc'' collision_pipeliner
     = (Inr [(''grid_acc_mean'', Num 9), (''grid_acc_std'', Num 1), (''grid_acc_best_params'', Str ''C'')],
        collision_pipeliner\<lparr>best_params := [''abcacc'' \<mapsto> [(''C'', 5)]]\<rparr>)"
  by (simp add: get_grid_search_results_def collision_pipeliner_def last_n_def od_getitem_def
        example_lib_def OrderedDict_def dict_eq_def param_key_def Let_def
        grid_mean_key_def grid_std_key_def grid_best_params_key_def)

lemma collision_get_scores:
  "get_scores example_lib 0 7 [''a'', ''bc''] ''acc'' None
       (collision_pipeliner\<lparr>best_params := [''abcacc'' \<mapsto> [(''C'', 5)]]\<rparr>)
     = (Inr (Array [0, 7, 5]),
        collision_pipeliner
          \<lparr>best_params := [''abcacc'' \<mapsto> [(''C'', 5)]],
           named_steps := [(''Reducer'', [(''ab'', 1), (''a'', 2)]),
                           (''Classifier'', [(''c'', 30), (''bc'', 45)])]\<rparr>)"
  by (simp add: get_scores_def prepare_steps_def collision_pipeliner_def last_n_def od_getitem_def
        example_lib_def param_key_def store_object_def example_cv_def)

theorem param_key_collision_witness:
  "get_grid_search_results example_lib 0 7 [''ab'', ''c''] ''acc'' collision_pipeliner
     = (Inr [(''grid_acc_mean'', Num 9), (''grid_acc_std'', Num 1), (''grid_acc_best_params'', Str ''C'')],
        collision_pipeliner\<lparr>best_params := [''abcacc'' \<mapsto> [(''C'', 5)]]\<rparr>)
 \<and> get_scores example_lib 0 7 [''a'', ''bc''] ''acc'' None
       (collision_pipeliner\<lparr>best_params := [''abcacc'' \<mapsto> [(''C'', 5)]]\<rparr>)
     = (Inr (Array [0, 7, 5]),
        collision_pipeliner
          \<lparr>best_params := [''abcacc'' \<mapsto> [(''C'', 5)]],
           named_steps := [(''Reducer'', [(''ab'', 1), (''a'', 2)]),
                           (''Classifier'', [(''c'', 30), (''bc'', 45)])]\<rparr>)
 \<and> (\<exists>params.
        best_params (collision_pipeliner\<lparr>best_params := [''abcacc'' \<mapsto> [(''C'', 5)]]\<rparr>)
          (param_key [''a'', ''bc''] ''acc'') = Some params
      \<and> (\<exists>steps0 steps q1.
            build_steps (named_steps (collision_pipeliner\<lparr>best_params := [''abcacc'' \<mapsto> [(''C'', 5)]]\<rparr>))
              (zip [''a'', ''bc'']
                 (last_n 2 (columns (plan_table (collision_pipeliner\<lparr>best_params := [''abcacc'' \<mapsto> [(''C'', 5)]]\<rparr>)))))
              = Inr steps0
          \<and> prepare_steps example_lib [''a'', ''bc''] ''acc''
               (collision_pipeliner\<lparr>best_params := [''abcacc'' \<mapsto> [(''C'', 5)]]\<rparr>) = (Inr steps, q1)
          \<and> set_params example_lib (snd (last steps0)) params = Inr (snd (last steps))))"
proof -
  note t = param_key_collision [of "[]" "''acc''" example_lib 0 7 collision_pipeliner]
  from t collision_grid_search collision_get_scores
  have "\<exists>params.
        best_params (collision_pipeliner\<lparr>best_params := [''abcacc'' \<mapsto> [(''C'', 5)]]\<rparr>)
          (param_key [''a'', ''bc''] ''acc'') = Some params
      \<and> (\<exists>steps0 steps q1.
            build_steps (named_steps (collision_pipeliner\<lparr>best_params := [''abcacc'' \<mapsto> [(''C'', 5)]]\<rparr>))
              (zip [''a'', ''bc'']
                 (last_n 2 (columns (plan_table (collision_pipeliner\<lparr>best_params := [''abcacc'' \<mapsto> [(''C'', 5)]]\<rparr>)))))
              = Inr steps0
          \<and> prepare_steps example_lib [''a'', ''bc''] ''acc''
               (collision_pipeliner\<lparr>best_params := [''abcacc'' \<mapsto> [(''C'', 5)]]\<rparr>) = (Inr steps, q1)
          \<and> set_params example_lib (snd (last steps0)) params = Inr (snd (last steps)))"
    by blast
  with collision_grid_search collision_get_scores show ?thesis by blast
qed

subsection \<open>Evaluation\<close>

lemma prepare_steps_eval_cv:
  "eval_cv (snd (prepare_steps lib row_keys scoring p)) = eval_cv p"
  by (auto simp: prepare_steps_def Let_def split: sum.splits list.splits option.splits)

lemma collect_loop_result:
  assumes "collect_loop lib steps X y scoring n scores p = (Inr out, p2)"
  shows "(n = 0 \<or> (\<exists>base. random_state (eval_cv p) = Some base))
       \<and> p2 = (if n = 0 then p
               else p\<lparr>eval_cv := (eval_cv p)\<lparr>random_state := map_option (\<lambda>b. b + int n) (random_state (eval_cv p))\<rparr>\<rparr>)
       \<and> length out = length scores + n
       \<and> take (length scores) out = scores
       \<and> (\<forall>i<n. \<exists>base pred metric.
             random_state (eval_cv p) = Some base
           \<and> cross_val_predict lib steps X y ((eval_cv p)\<lparr>random_state := Some (base + int i)\<rparr>) = Inr pred
           \<and> score_func lib (snd (last steps)) scoring = Inr metric
           \<and> metric y pred = Inr (out ! (length scores + i)))"
  using assms
proof (induction n arbitrary: scores p)
  case 0
  then show ?case by simp
next
  case (Suc n)
  from Suc.prems obtain pred metric score r where
    cvp: "cross_val_predict lib steps X y (eval_cv p) = Inr pred" and
    sf: "score_func lib (snd (last steps)) scoring = Inr metric" and
    ms: "metric y pred = Inr score" and
    rs: "random_state (eval_cv p) = Some r" and
    rec: "collect_loop lib steps X y scoring n (scores @ [score])
            (p\<lparr>eval_cv := (eval_cv p)\<lparr>random_state := Some (r + 1)\<rparr>\<rparr>) = (Inr out, p2)"
    by (auto split: sum.splits option.splits)
  let ?q = "p\<lparr>eval_cv := (eval_cv p)\<lparr>random_state := Some (r + 1)\<rparr>\<rparr>"
  note ih = Suc.IH [OF rec]
  have len: "length out = length scores + Suc n" using ih by simp
  have tk: "take (length scores) out = scores"
  proof -
    have "take (length scores) (take (length (scores @ [score])) out) = take (length scores) (scores @ [score])"
      using ih by simp
    then show ?thesis by (simp add: min_def)
  qed
  have at: "out ! length scores = score"
  proof -
    have "take (Suc (length scores)) out ! length scores = (scores @ [score]) ! length scores"
      using ih by simp
    then show ?thesis by simp
  qed
  have p2: "p2 = p\<lparr>eval_cv := (eval_cv p)\<lparr>random_state := Some (r + int (Suc n))\<rparr>\<rparr>"
    using ih by (cases "n = 0") (simp_all add: add.commute add.left_commute)
  have each: "\<exists>base pred metric.
             random_state (eval_cv p) = Some base
           \<and> cross_val_predict lib steps X y ((eval_cv p)\<lparr>random_state := Some (base + int i)\<rparr>) = Inr pred
           \<and> score_func lib (snd (last steps)) scoring = Inr metric
           \<and> metric y pred = Inr (out ! (length scores + i))" if "i < Suc n" for i
  proof (cases i)
    case 0
    have e: "(eval_cv p)\<lparr>random_state := Some r\<rparr> = eval_cv p" using rs by simp
    have "cross_val_predict lib steps X y ((eval_cv p)\<lparr>random_state := Some (r + int i)\<rparr>) = Inr pred"
      by (simp add: 0 e cvp)
    moreover have "metric y pred = Inr (out ! (length scores + i))"
      by (simp add: 0 at ms)
    ultimately show ?thesis using rs sf by blast
  next
    case (Suc j)
    then have "j < n" using that by simp
    with ih obtain pred' metric' where
      "cross_val_predict lib steps X y ((eval_cv ?q)\<lparr>random_state := Some (r + 1 + int j)\<rparr>) = Inr pred'"
      "score_func lib (snd (last steps)) scoring = Inr metric'"
      "metric' y pred' = Inr (out ! (length (scores @ [score]) + j))"
      by fastforce
    then show ?thesis using rs Suc by (simp add: add.commute add.left_commute)
  qed
  show ?case using len tk p2 rs each by simp
qed

lemma example_get_scores_3:
  "get_scores example_lib 110 7 [''SVC''] ''accuracy'' (Some 3)
       (example_pipeliner\<lparr>best_params := [''SVCaccuracy'' \<mapsto> []]\<rparr>)
     = (Inr (PyList [118, 119, 120]), example_pipeliner\<lparr>best_params := [''SVCaccuracy'' \<mapsto> []]\<rparr>)"
  by (simp add: get_scores_def prepare_steps_def example_pipeliner_def last_n_def example_steps_def
        od_getitem_def param_key_def example_lib_def store_object_def example_cv_def numeral_3_eq_3)

lemma example_get_scores_0:
  "get_scores example_lib 110 7 [''SVC''] ''accuracy'' (Some 0)
       (example_pipeliner\<lparr>best_params := [''SVCaccuracy'' \<mapsto> []]\<rparr>)
     = (Inr (Array [110, 7, 5]), example_pipeliner\<lparr>best_params := [''SVCaccuracy'' \<mapsto> []]\<rparr>)"
  by (simp add: get_scores_def prepare_steps_def example_pipeliner_def last_n_def example_steps_def
        od_getitem_def param_key_def example_lib_def store_object_def example_cv_def)

text \<open>
  C7. When \<^verbatim>\<open>get_scores\<close> with a repeat count N > 0 returns, the seed of the evaluation
  generator is what it was before the call, although the loop has run N times from an
  integer seed and left the seed at that value plus N before it is restored.
\<close>

theorem get_scores_restores_seed:
  assumes "get_scores lib X y row_keys scoring (Some N) p = (Inr scores, p1)" and "0 < N"
  shows "random_state (eval_cv p1) = random_state (eval_cv p)
       \<and> (\<exists>steps q q2 out base.
            prepare_steps lib row_keys scoring p = (Inr steps, q)
          \<and> collect_loop lib steps X y scoring (nat N) [] q = (Inr out, q2)
          \<and> random_state (eval_cv p) = Some base
          \<and> random_state (eval_cv q2) = Some (base + N))"
proof -
  from assms obtain steps q out q2 where
    ps: "prepare_steps lib row_keys scoring p = (Inr steps, q)" and
    cl: "collect_loop lib steps X y scoring (nat N) [] q = (Inr out, q2)" and
    p1: "p1 = q2\<lparr>eval_cv := (eval_cv q2)\<lparr>random_state := random_state (eval_cv q)\<rparr>\<rparr>"
    by (auto simp: get_scores_def Let_def split: prod.splits sum.splits if_splits)
  have q: "eval_cv q = eval_cv p"
    using prepare_steps_eval_cv [of lib row_keys scoring p] ps by simp
  have n: "nat N \<noteq> 0" using assms(2) by simp
  from collect_loop_result [OF cl] n obtain base where
    b: "random_state (eval_cv q) = Some base" and
    q2: "q2 = q\<lparr>eval_cv := (eval_cv q)\<lparr>random_state := map_option (\<lambda>b. b + int (nat N)) (random_state (eval_cv q))\<rparr>\<rparr>"
    by auto
  have "random_state (eval_cv q2) = Some (base + N)"
    using q2 b assms(2) by simp
  then show ?thesis using ps cl p1 q b by auto
qed

theorem get_scores_restores_seed_witness:
  "get_scores example_lib 110 7 [''SVC''] ''accuracy'' (Some 3)
       (example_pipeliner\<lparr>best_params := [''SVCaccuracy'' \<mapsto> []]\<rparr>)
     = (Inr (PyList [118, 119, 120]), example_pipeliner\<lparr>best_params := [''SVCaccuracy'' \<mapsto> []]\<rparr>)
 \<and> (0::int) < 3
 \<and> random_state (eval_cv (example_pipeliner\<lparr>best_params := [''SVCaccuracy'' \<mapsto> []]\<rparr>)) = Some 1"
  using get_scores_restores_seed [OF example_get_scores_3] example_get_scores_3
  by (simp add: example_pipeliner_def example_cv_def)

text \<open>
  C8. When \<^verbatim>\<open>get_scores\<close> with a repeat count N > 0 returns, it returns a Python list of
  exactly N scores, the seed was an integer, and the score at index i is the metric's
  score function applied to the labels and to the predictions of a cross-validated
  prediction pass made with the seed plus i.
\<close>

theorem get_scores_repeated_scores:
  assumes "get_scores lib X y row_keys scoring (Some N) p = (Inr scores, p1)" and "0 < N"
  shows "\<exists>out steps q base.
           scores = PyList out \<and> int (length out) = N
         \<and> prepare_steps lib row_keys scoring p = (Inr steps, q)
         \<and> random_state (eval_cv p) = Some base
         \<and> (\<forall>i < length out. \<exists>pred metric.
               cross_val_predict lib steps X y ((eval_cv p)\<lparr>random_state := Some (base + int i)\<rparr>) = Inr pred
             \<and> score_func lib (snd (last steps)) scoring = Inr metric
             \<and> metric y pred = Inr (out ! i))"
proof -
  from assms obtain steps q out q2 where
    ps: "prepare_steps lib row_keys scoring p = (Inr steps, q)" and
    cl: "collect_loop lib steps X y scoring (nat N) [] q = (Inr out, q2)" and
    sc: "scores = PyList out"
    by (auto simp: get_scores_def Let_def split: prod.splits sum.splits if_splits)
  have q: "eval_cv q = eval_cv p"
    using prepare_steps_eval_cv [of lib row_keys scoring p] ps by simp
  have n: "nat N \<noteq> 0" using assms(2) by simp
  note r = collect_loop_result [OF cl]
  from r n obtain base where b: "random_state (eval_cv q) = Some base" by auto
  have len: "int (length out) = N" using r assms(2) by simp
  have each: "\<exists>pred metric.
               cross_val_predict lib steps X y ((eval_cv p)\<lparr>random_state := Some (base + int i)\<rparr>) = Inr pred
             \<and> score_func lib (snd (last steps)) scoring = Inr metric
             \<and> metric y pred = Inr (out ! i)" if "i < length out" for i
  proof -
    have "i < nat N" using that r by simp
    moreover have "\<forall>i<nat N. \<exists>base pred metric.
             random_state (eval_cv q) = Some base
           \<and> cross_val_predict lib steps X y ((eval_cv q)\<lparr>random_state := Some (base + int i)\<rparr>) = Inr pred
           \<and> score_func lib (snd (last steps)) scoring = Inr metric
           \<and> metric y pred = Inr (out ! i)"
      using r by simp
    ultimately obtain base' pred metric where
      "random_state (eval_cv q) = Some base'"
      "cross_val_predict lib steps X y ((eval_cv q)\<lparr>random_state := Some (base' + int i)\<rparr>) = Inr pred"
      "score_func lib (snd (last steps)) scoring = Inr metric"
      "metric y pred = Inr (out ! i)"
      by blast
    then show ?thesis using b q by auto
  qed
  show ?thesis using sc len ps b q each by auto
qed

theorem get_scores_repeated_scores_witness:
  "get_scores example_lib 110 7 [''SVC''] ''accuracy'' (Some 3)
       (example_pipeliner\<lparr>best_params := [''SVCaccuracy'' \<mapsto> []]\<rparr>)
     = (Inr (PyList [118, 119, 120]), example_pipeliner\<lparr>best_params := [''SVCaccuracy'' \<mapsto> []]\<rparr>)
 \<and> (0::int) < 3 \<and> int (length [118, 119, 120 :: nat]) = 3"
  using get_scores_repeated_scores [OF example_get_scores_3] example_get_scores_3
  by simp

text \<open>
  C10. With \<^verbatim>\<open>collect_n = 0\<close> the call is the call with \<^verbatim>\<open>collect_n = None\<close>: it never
  returns the empty Python list, and what it returns is the array of scores of one pass
  of \<^verbatim>\<open>cross_val_score\<close>.
\<close>

theorem get_scores_zero_single_pass:
  "get_scores lib X y row_keys scoring (Some 0) p = get_scores lib X y row_keys scoring None p
   \<and> fst (get_scores lib X y row_keys scoring (Some 0) p) \<noteq> Inr (PyList [])
   \<and> (\<forall>scores p1. get_scores lib X y row_keys scoring (Some 0) p = (Inr scores, p1) \<longrightarrow>
        (\<exists>steps v. prepare_steps lib row_keys scoring p = (Inr steps, p1)
           \<and> cross_val_score lib steps X y scoring (eval_cv p1) = Inr v \<and> scores = Array v))"
  by (auto simp: get_scores_def split: prod.splits sum.splits)

theorem get_scores_zero_single_pass_witness:
  "get_scores example_lib 110 7 [''SVC''] ''accuracy'' (Some 0)
       (example_pipeliner\<lparr>best_params := [''SVCaccuracy'' \<mapsto> []]\<rparr>)
     = (Inr (Array [110, 7, 5]), example_pipeliner\<lparr>best_params := [''SVCaccuracy'' \<mapsto> []]\<rparr>)
 \<and> get_scores example_lib 110 7 [''SVC''] ''accuracy'' None
       (example_pipeliner\<lparr>best_params := [''SVCaccuracy'' \<mapsto> []]\<rparr>)
     = (Inr (Array [110, 7, 5]), example_pipeliner\<lparr>best_params := [''SVCaccuracy'' \<mapsto> []]\<rparr>)"
  using get_scores_zero_single_pass
          [of example_lib 110 7 "[''SVC'']" "''accuracy''"
              "example_pipeliner\<lparr>best_params := [''SVCaccuracy'' \<mapsto> []]\<rparr>"]
        example_get_scores_0
  by simp

subsection \<open>The result table\<close>






































text \<open>
  A run on a plan of two or more rows never returns: when the first row is processed
  without an error, the second call of \<^verbatim>\<open>transform_with_caching\<close> raises NameError.
\<close>

lemma grid_search_cached_X:
  "cached_X (snd (get_grid_search_results lib X y row_keys scoring p)) = cached_X p"
  by (auto simp: get_grid_search_results_def Let_def split: list.splits option.splits sum.splits)

lemma prepare_steps_cached_X:
  "cached_X (snd (prepare_steps lib row_keys scoring p)) = cached_X p"
  by (auto simp: prepare_steps_def Let_def split: sum.splits list.splits option.splits)

lemma collect_loop_cached_X:
  "cached_X (snd (collect_loop lib steps X y scoring n scores p)) = cached_X p"
  by (induction n arbitrary: scores p) (auto split: sum.splits option.splits)

lemma get_scores_cached_X:
  "cached_X (snd (get_scores lib X y row_keys scoring collect_n p)) = cached_X p"
proof -
  obtain r q where ps: "prepare_steps lib row_keys scoring p = (r, q)"
    by (cases "prepare_steps lib row_keys scoring p")
  have q: "cached_X q = cached_X p" using prepare_steps_cached_X [of lib row_keys scoring p] ps by simp
  show ?thesis
  proof (cases r)
    case (Inl e)
    then show ?thesis using q by (simp add: get_scores_def ps)
  next
    case (Inr steps)
    obtain r2 q2 where cl: "collect_loop lib steps X y scoring
                              (case collect_n of None \<Rightarrow> 0 | Some n \<Rightarrow> nat n) [] q = (r2, q2)"
      by (cases "collect_loop lib steps X y scoring (case collect_n of None \<Rightarrow> 0 | Some n \<Rightarrow> nat n) [] q")
    have "cached_X q2 = cached_X q"
      using collect_loop_cached_X
              [of lib steps X y scoring "case collect_n of None \<Rightarrow> 0 | Some n \<Rightarrow> nat n" "[]" q] cl
      by simp
    then show ?thesis
      using q by (auto simp: get_scores_def ps Inr cl Let_def split: sum.splits)
  qed
qed

lemma metric_loop_cached_X:
  "cached_X (snd (metric_loop lib Xf y cols row wc cn idx ms res p)) = cached_X p"
proof (induction ms arbitrary: res p)
  case Nil
  show ?case by simp
next
  case (Cons m ms)
  show ?case
  proof (cases "row_values cols row wc")
    case (Inl e)
    then show ?thesis by simp
  next
    case (Inr ml_keys)
    obtain r1 p1 where g: "get_grid_search_results lib Xf y ml_keys m p = (r1, p1)"
      by (cases "get_grid_search_results lib Xf y ml_keys m p")
    have c1: "cached_X p1 = cached_X p"
      using grid_search_cached_X [of lib Xf y ml_keys m p] g by simp
    obtain r2 p2 where s: "get_scores lib Xf y ml_keys m cn p1 = (r2, p2)"
      by (cases "get_scores lib Xf y ml_keys m cn p1")
    have c2: "cached_X p2 = cached_X p"
      using get_scores_cached_X [of lib Xf y ml_keys m cn p1] s c1 by simp
    show ?thesis
      using c1 c2 by (auto simp: Inr g s Let_def Cons.IH split: sum.splits)
  qed
qed

lemma row_loop_second_row:
  assumes "''init'' \<in> set (od_keys (cached_X p))"
  shows "\<exists>e. fst (row_loop core_globals lib X y cols cs wc ms cn (ir # irs) res p) = Inl e"
proof -
  obtain idx row where ir: "ir = (idx, row)" by (cases ir)
  have "transform_with_caching_under core_globals lib X y ks p = (Inl (NameError ''cp''), p)" for ks
    using transform_with_caching_init_cached [OF assms] by (simp add: transform_with_caching_def)
  then show ?thesis by (auto simp: ir split: sum.splits)
qed

lemma row_loop_two_rows:
  "\<exists>e. fst (row_loop core_globals lib X y cols cs wc ms cn (ir1 # ir2 # irs) res p) = Inl e"
proof -
  obtain idx row where ir: "ir1 = (idx, row)" by (cases ir1)
  show ?thesis
  proof (cases "row_values cols row cs")
    case (Inl e)
    then show ?thesis by (simp add: ir)
  next
    case (Inr caching_keys)
    obtain r1 p1 where t: "transform_with_caching_under core_globals lib X y caching_keys p = (r1, p1)"
      by (cases "transform_with_caching_under core_globals lib X y caching_keys p")
    show ?thesis
    proof (cases r1)
      case (Inl e)
      then show ?thesis by (simp add: ir Inr t)
    next
      case r: (Inr xy)
      obtain Xf y1 where xy: "xy = (Xf, y1)" by (cases xy)
      have i1: "''init'' \<in> set (od_keys (cached_X p1))"
        using t transform_with_caching_success_init [of lib X y caching_keys p xy p1]
        by (simp add: r transform_with_caching_def)
      obtain r2 p2 where m: "metric_loop lib Xf y1 cols row wc cn idx ms res p1 = (r2, p2)"
        by (cases "metric_loop lib Xf y1 cols row wc cn idx ms res p1")
      have i2: "''init'' \<in> set (od_keys (cached_X p2))"
        using metric_loop_cached_X [of lib Xf y1 cols row wc cn idx ms res p1] m i1 by simp
      show ?thesis
      proof (cases r2)
        case (Inl e)
        then show ?thesis by (simp add: ir Inr t r xy m)
      next
        case (Inr res1)
        then show ?thesis
          using row_loop_second_row [OF i2, of lib X y1 cols cs wc ms cn ir2 irs res1]
          by (simp add: ir \<open>row_values cols row cs = Inr caching_keys\<close> t r xy m)
      qed
    qed
  qed
qed

lemma get_results_two_rows_raises:
  assumes "2 \<le> length (rows (plan_table p))"
  shows "\<exists>e. fst (get_results lib X y caching_steps scoring collect_n p) = Inl e"
proof -
  let ?irs = "zip [0 ..< length (rows (plan_table p))] (rows (plan_table p))"
  have "2 \<le> length ?irs" using assms by simp
  then obtain ir1 ir2 irs where "?irs = ir1 # ir2 # irs"
    by (cases ?irs; cases "tl ?irs") auto
  then show ?thesis
    using row_loop_two_rows
    by (simp add: get_results_def get_results_under_def Let_def)
qed








end
